theory Spec2Isabelle
  imports Complex_Main "HOL-Library.Log_Nat" "HOL-Library.Multiset"
begin

section \<open>JavaScript values\<close>

text \<open>
  The application (\<^verbatim>\<open>src/src/App.jsx\<close>, component \<^verbatim>\<open>HousingStats\<close>) reads two JSON
  services.  A cell of a table of the statistical service, and a value in a feature's
  attribute bag, is a JSON string or \<^verbatim>\<open>null\<close>; reading an index or a key that is not
  there gives \<^verbatim>\<open>undefined\<close>.  Strings are lists of (ASCII) characters.
\<close>

datatype jsval = JUndefined | JNull | JStr string

text \<open>\<^verbatim>\<open>ToBoolean\<close>: \<^verbatim>\<open>undefined\<close>, \<^verbatim>\<open>null\<close> and the empty string are falsy.\<close>

fun truthy :: "jsval \<Rightarrow> bool" where
  "truthy JUndefined = False"
| "truthy JNull = False"
| "truthy (JStr s) = (s \<noteq> [])"

text \<open>\<^verbatim>\<open>a || b\<close> on values.\<close>

definition js_or :: "jsval \<Rightarrow> jsval \<Rightarrow> jsval" where
  "js_or a b = (if truthy a then a else b)"

text \<open>\<^verbatim>\<open>ToString\<close>, as a template literal and \<^verbatim>\<open>parseInt\<close> apply it.\<close>

fun js_toString :: "jsval \<Rightarrow> string" where
  "js_toString JUndefined = ''undefined''"
| "js_toString JNull = ''null''"
| "js_toString (JStr s) = s"

text \<open>\<^verbatim>\<open>row[i]\<close> on an array: \<^verbatim>\<open>undefined\<close> outside the array, also at index -1.\<close>

definition at_index :: "jsval list \<Rightarrow> int \<Rightarrow> jsval" where
  "at_index row i = (if 0 \<le> i \<and> i < int (length row) then row ! nat i else JUndefined)"

text \<open>\<^verbatim>\<open>headers.indexOf(name)\<close>: the first position of the name, or -1.\<close>

fun indexOf :: "jsval list \<Rightarrow> jsval \<Rightarrow> int" where
  "indexOf [] v = - 1"
| "indexOf (h # hs) v =
     (if h = v then 0 else (let i = indexOf hs v in if i < 0 then - 1 else i + 1))"

text \<open>An object used as a bag of named values; a key that is absent reads as \<^verbatim>\<open>undefined\<close>.\<close>

type_synonym bag = "string \<rightharpoonup> jsval"

definition get_prop :: "bag \<Rightarrow> string \<Rightarrow> jsval" where
  "get_prop b k = (case b k of None \<Rightarrow> JUndefined | Some v \<Rightarrow> v)"

section \<open>Strings and identifier normalisation\<close>

definition is_digit :: "char \<Rightarrow> bool" where
  "is_digit c = (c \<in> set ''0123456789'')"

text \<open>The white space that \<^verbatim>\<open>parseInt\<close> and \<^verbatim>\<open>parseFloat\<close> skip (ASCII part).\<close>

definition is_space :: "char \<Rightarrow> bool" where
  "is_space c = (c \<in> set [CHR 0x09, CHR 0x0A, CHR 0x0B, CHR 0x0C, CHR 0x0D, CHR 0x20])"

text \<open>
  \<^verbatim>\<open>String.prototype.padStart(targetLength, padString)\<close>: the string itself when it is
  long enough or the filler is empty, else the filler repeated and cut to the missing
  length, in front of the string.
\<close>

definition padStart :: "string \<Rightarrow> nat \<Rightarrow> string \<Rightarrow> string" where
  "padStart s n fill =
     (if n \<le> length s \<or> fill = [] then s
      else take (n - length s) (concat (replicate (n - length s) fill)) @ s)"

text \<open>
  State ids are normalised by \<^verbatim>\<open>id.padStart(2, '0')\<close> (\<^verbatim>\<open>loadStates\<close>, \<^verbatim>\<open>loadCounties\<close>,
  \<^verbatim>\<open>handleCountySelect\<close>) and county ids by \<^verbatim>\<open>padStart(3, '0')\<close>.
\<close>

definition normalizeStateId :: "string \<Rightarrow> string" where
  "normalizeStateId raw = padStart raw 2 ''0''"

definition normalizeCountyId :: "string \<Rightarrow> string" where
  "normalizeCountyId raw = padStart raw 3 ''0''"

text \<open>\<^verbatim>\<open>s.split(',')[0]\<close>: the part of the string before its first comma.\<close>

definition split_comma_first :: "string \<Rightarrow> string" where
  "split_comma_first s = takeWhile (\<lambda>c. c \<noteq> CHR '','') s"

section \<open>Numbers\<close>

text \<open>
  A JavaScript number is an IEEE 754 double: not-a-number, an infinity, or a finite
  value, kept here as the rational it denotes.  The two zeros are not told apart: the
  program divides only by a total that is greater than zero, and prints and compares
  both zeros alike.
\<close>

datatype jsnum = NaN | NegInf | Fin rat | PosInf

text \<open>The integer \<open>e\<close> with \<open>2 powi e \<le> a < 2 powi (e + 1)\<close>, for \<open>a > 0\<close>.\<close>

definition ilog2 :: "rat \<Rightarrow> int" where
  "ilog2 a = (if 1 \<le> a then bitlen \<lfloor>a\<rfloor> - 1 else - bitlen (\<lceil>1 / a\<rceil> - 1))"

definition round_half_even :: "rat \<Rightarrow> int" where
  "round_half_even x =
     (let f = \<lfloor>x\<rfloor>; d = x - of_int f
      in if d < 1 / 2 then f else if 1 / 2 < d then f + 1 else if even f then f else f + 1)"

text \<open>
  Rounding of an exact result to a double (round to nearest, ties to even): 53
  significant bits, the spacing never below \<open>2 powi - 1074\<close> (subnormal numbers), and
  an infinity from \<open>2 powi 1024\<close> on.
\<close>

definition fl :: "rat \<Rightarrow> jsnum" where
  "fl x =
     (if x = 0 then Fin 0
      else let a = \<bar>x\<bar>;
               e = max (ilog2 a) (- 1022);
               u = 2 powi (e - 52);
               r = of_int (round_half_even (a / u)) * u
           in if 2 powi 1024 \<le> r then (if x < 0 then NegInf else PosInf)
              else Fin (if x < 0 then - r else r))"

text \<open>
  Every finite double is a whole multiple of \<open>2 powi - 1074\<close>: \<open>on_grid\<close> says so of a
  rational, \<open>is_double\<close> of a number.
\<close>

definition on_grid :: "rat \<Rightarrow> bool" where
  "on_grid r = (of_int \<lfloor>r * 2 ^ 1074\<rfloor> = r * 2 ^ 1074)"

definition is_double :: "jsnum \<Rightarrow> bool" where
  "is_double v = (case v of Fin r \<Rightarrow> on_grid r | _ \<Rightarrow> True)"

fun js_div :: "jsnum \<Rightarrow> jsnum \<Rightarrow> jsnum" where
  "js_div (Fin x) (Fin y) =
     (if y = 0 then (if x = 0 then NaN else if 0 < x then PosInf else NegInf) else fl (x / y))"
| "js_div (Fin x) PosInf = Fin 0"
| "js_div (Fin x) NegInf = Fin 0"
| "js_div PosInf (Fin y) = (if 0 \<le> y then PosInf else NegInf)"
| "js_div NegInf (Fin y) = (if 0 \<le> y then NegInf else PosInf)"
| "js_div _ _ = NaN"

fun js_mul :: "jsnum \<Rightarrow> jsnum \<Rightarrow> jsnum" where
  "js_mul (Fin x) (Fin y) = fl (x * y)"
| "js_mul NaN _ = NaN"
| "js_mul _ NaN = NaN"
| "js_mul (Fin x) PosInf = (if x = 0 then NaN else if 0 < x then PosInf else NegInf)"
| "js_mul (Fin x) NegInf = (if x = 0 then NaN else if 0 < x then NegInf else PosInf)"
| "js_mul PosInf (Fin y) = (if y = 0 then NaN else if 0 < y then PosInf else NegInf)"
| "js_mul NegInf (Fin y) = (if y = 0 then NaN else if 0 < y then NegInf else PosInf)"
| "js_mul PosInf PosInf = PosInf"
| "js_mul NegInf NegInf = PosInf"
| "js_mul PosInf NegInf = NegInf"
| "js_mul NegInf PosInf = NegInf"

fun js_sub :: "jsnum \<Rightarrow> jsnum \<Rightarrow> jsnum" where
  "js_sub (Fin x) (Fin y) = fl (x - y)"
| "js_sub NaN _ = NaN"
| "js_sub _ NaN = NaN"
| "js_sub PosInf PosInf = NaN"
| "js_sub NegInf NegInf = NaN"
| "js_sub PosInf _ = PosInf"
| "js_sub NegInf _ = NegInf"
| "js_sub (Fin x) PosInf = NegInf"
| "js_sub (Fin x) NegInf = PosInf"

text \<open>\<^verbatim>\<open>a < b\<close>, \<^verbatim>\<open>a > b\<close> and \<^verbatim>\<open>a >= b\<close>: false as soon as an operand is not a number.\<close>

fun js_lt :: "jsnum \<Rightarrow> jsnum \<Rightarrow> bool" where
  "js_lt NaN _ = False"
| "js_lt _ NaN = False"
| "js_lt (Fin x) (Fin y) = (x < y)"
| "js_lt _ NegInf = False"
| "js_lt NegInf _ = True"
| "js_lt PosInf _ = False"
| "js_lt (Fin x) PosInf = True"

definition js_gt :: "jsnum \<Rightarrow> jsnum \<Rightarrow> bool" where
  "js_gt a b = js_lt b a"

definition js_ge :: "jsnum \<Rightarrow> jsnum \<Rightarrow> bool" where
  "js_ge a b = (a = b \<and> a \<noteq> NaN \<or> js_lt b a)"

definition js_neg :: "jsnum \<Rightarrow> jsnum" where
  "js_neg x = (case x of NaN \<Rightarrow> NaN | NegInf \<Rightarrow> PosInf | PosInf \<Rightarrow> NegInf | Fin q \<Rightarrow> Fin (- q))"

text \<open>\<^verbatim>\<open>a || b\<close> on numbers: not-a-number and zero are falsy.\<close>

definition num_or :: "jsnum \<Rightarrow> jsnum \<Rightarrow> jsnum" where
  "num_or a b = (if a = NaN \<or> a = Fin 0 then b else a)"

section \<open>Reading and printing numbers\<close>

text \<open>The value of a character as a digit in radix \<open>R\<close>, if it is one.\<close>

definition radix_digit :: "nat \<Rightarrow> char \<Rightarrow> nat option" where
  "radix_digit R c =
     (let n = (of_char c :: nat);
          v = (if 48 \<le> n \<and> n \<le> 57 then Some (n - 48)
               else if 97 \<le> n \<and> n \<le> 122 then Some (n - 87)
               else if 65 \<le> n \<and> n \<le> 90 then Some (n - 55)
               else None)
      in case v of None \<Rightarrow> None | Some d \<Rightarrow> if d < R then Some d else None)"

definition digits_value :: "nat \<Rightarrow> string \<Rightarrow> nat" where
  "digits_value R Z =
     foldl (\<lambda>a c. a * R + (case radix_digit R c of None \<Rightarrow> 0 | Some d \<Rightarrow> d)) 0 Z"

text \<open>
  \<^verbatim>\<open>parseInt(string)\<close> with no radix: leading white space and a sign are skipped, a
  prefix \<^verbatim>\<open>0x\<close> selects radix 16, and the longest run of digits is read; no digit
  gives not-a-number.  The integer read is rounded to a double (an engine may round
  an integer of more than 20 digits less exactly).
\<close>

definition parseInt_string :: "string \<Rightarrow> jsnum" where
  "parseInt_string input =
     (let S = dropWhile is_space input;
          neg = (take 1 S = ''-'');
          S1 = (if take 1 S = ''+'' \<or> take 1 S = ''-'' then drop 1 S else S);
          hex = (take 2 S1 = ''0x'' \<or> take 2 S1 = ''0X'');
          R = (if hex then 16 else 10);
          S2 = (if hex then drop 2 S1 else S1);
          Z = takeWhile (\<lambda>c. radix_digit R c \<noteq> None) S2
      in if Z = [] then NaN
         else if neg then js_neg (fl (of_int (int (digits_value R Z))))
         else fl (of_int (int (digits_value R Z))))"

definition parseInt :: "jsval \<Rightarrow> jsnum" where
  "parseInt v = parseInt_string (js_toString v)"

text \<open>
  \<^verbatim>\<open>parseFloat(string)\<close>: the longest prefix that is a decimal literal (sign, digits,
  fraction, exponent, or \<^verbatim>\<open>Infinity\<close>), rounded to a double; not-a-number when there
  is none.
\<close>

definition parseFloat :: "string \<Rightarrow> jsnum" where
  "parseFloat input =
     (let S = dropWhile is_space input;
          neg = (take 1 S = ''-'');
          S1 = (if take 1 S = ''+'' \<or> take 1 S = ''-'' then drop 1 S else S);
          ip = takeWhile is_digit S1;
          r1 = dropWhile is_digit S1;
          fp = (if take 1 r1 = ''.'' then takeWhile is_digit (drop 1 r1) else []);
          r2 = (if take 1 r1 = ''.'' then dropWhile is_digit (drop 1 r1) else r1);
          r3 = (if take 1 r2 = ''e'' \<or> take 1 r2 = ''E'' then drop 1 r2 else []);
          eneg = (take 1 r3 = ''-'');
          ed = takeWhile is_digit
                 (if take 1 r3 = ''+'' \<or> take 1 r3 = ''-'' then drop 1 r3 else r3);
          mant = (of_int (int (digits_value 10 (ip @ fp))) :: rat) / 10 ^ length fp;
          v = (if eneg then mant / 10 ^ digits_value 10 ed else mant * 10 ^ digits_value 10 ed)
      in if take 8 S1 = ''Infinity'' then (if neg then NegInf else PosInf)
         else if ip = [] \<and> fp = [] then NaN
         else if neg then js_neg (fl v) else fl v)"

text \<open>The decimal digits of a natural number.\<close>

definition digit_char :: "nat \<Rightarrow> char" where
  "digit_char d = ''0123456789'' ! d"

fun digits :: "nat \<Rightarrow> string" where
  "digits n =
     (if n < 10 then [digit_char n] else digits (n div 10) @ [digit_char (n mod 10)])"

text \<open>
  \<^verbatim>\<open>Number::toString\<close> for a double of at least \<open>10 ^ 21\<close> (an integer \<open>N\<close> of \<open>n\<close>
  digits): the shortest digit string \<open>s\<close> that reads back as the same double, in
  exponent notation.  \<open>shortest N n k\<close> is the \<open>k\<close>-digit candidate, if there is one.
\<close>

definition shortest :: "nat \<Rightarrow> nat \<Rightarrow> nat \<Rightarrow> nat option" where
  "shortest N n k =
     (let p = 10 ^ (n - k); lo = N div p; hi = lo + 1;
          okl = (fl (of_int (int (lo * p))) = Fin (of_int (int N)));
          okh = (fl (of_int (int (hi * p))) = Fin (of_int (int N)))
      in if okl \<and> okh
         then (if N - lo * p < hi * p - N then Some lo
               else if hi * p - N < N - lo * p then Some hi
               else if even lo then Some lo else Some hi)
         else if okl then Some lo else if okh then Some hi else None)"

definition toString_large :: "rat \<Rightarrow> string" where
  "toString_large a =
     (let N = nat \<lfloor>a\<rfloor>; n = length (digits N);
          ks = filter (\<lambda>k. shortest N n k \<noteq> None) [1 ..< 18];
          k = (case ks of [] \<Rightarrow> 17 | k # _ \<Rightarrow> k);
          s = (case shortest N n k of None \<Rightarrow> N div 10 ^ (n - k) | Some s \<Rightarrow> s);
          carry = (length (digits s) > k);
          ds = (if carry then ''1'' else digits s);
          e = (if carry then n else n - 1)
      in (if length ds = 1 then ds else take 1 ds @ ''.'' @ drop 1 ds) @ ''e+'' @ digits e)"

text \<open>
  \<^verbatim>\<open>Number.prototype.toFixed(f)\<close>: the integer \<open>n\<close> for which \<open>n / 10 ^ f\<close> is nearest to
  the number (the larger one of two), printed with \<open>f\<close> digits after the point; numbers
  from \<open>10 ^ 21\<close> on, infinities and not-a-number are printed as \<^verbatim>\<open>ToString\<close> does.
\<close>

definition toFixed :: "jsnum \<Rightarrow> nat \<Rightarrow> string" where
  "toFixed x f =
     (case x of
        NaN \<Rightarrow> ''NaN''
      | PosInf \<Rightarrow> ''Infinity''
      | NegInf \<Rightarrow> ''-Infinity''
      | Fin q \<Rightarrow>
          (let s = (if q < 0 then ''-'' else '''');
               a = \<bar>q\<bar>
           in if 10 ^ 21 \<le> a then s @ toString_large a
              else let n = nat \<lfloor>a * 10 ^ f + 1 / 2\<rfloor>;
                       m = digits n;
                       k = length m;
                       z = (if k \<le> f then replicate (f + 1 - k) CHR ''0'' @ m else m);
                       k' = (if k \<le> f then f + 1 else k)
                   in if f = 0 then s @ m
                      else s @ take (k' - f) z @ ''.'' @ drop (k' - f) z))"

text \<open>
  The rate as the specification words it, to compare \<^verbatim>\<open>toFixed(1)\<close> with: the number
  rounded to one decimal place (to the nearest tenth, a half away from zero) and
  written with its sign, its integer part, a point and one decimal digit.
\<close>

definition rounded_one_decimal :: "rat \<Rightarrow> string" where
  "rounded_one_decimal q =
     (let tenths = nat \<lfloor>\<bar>q\<bar> * 10 + 1 / 2\<rfloor>
      in (if q < 0 then ''-'' else []) @ digits (tenths div 10) @ ''.''
         @ [digit_char (tenths mod 10)])"

section \<open>Errors and responses\<close>

text \<open>
  An exception is the message it carries: a text the program wrote, or a text of the
  JavaScript engine or of the network layer (a \<^verbatim>\<open>TypeError\<close>, a rejected \<^verbatim>\<open>fetch\<close>, a
  body that is not JSON), which the program only extends in front.
\<close>

datatype message = Text string | EngineText string

text \<open>\<^verbatim>\<open>`prefix${err.message}`\<close>\<close>

fun prefixed :: "string \<Rightarrow> message \<Rightarrow> message" where
  "prefixed p (Text s) = Text (p @ s)"
| "prefixed p (EngineText s) = EngineText (p @ s)"

text \<open>
  The body of a response, read by \<^verbatim>\<open>response.json()\<close>: not readable in the expected
  shape, \<^verbatim>\<open>null\<close>, or a document.  A response is a failure of the network, or
  \<^verbatim>\<open>ok\<close>, a status and a body.  A request is a URL with its parameters.
\<close>

datatype 'a json = Malformed | Null | Json 'a

datatype 'a response = NetworkFailure | Response bool nat "'a json"

datatype request = Request string "(string \<times> string) list"

text \<open>\<^verbatim>\<open>array.map(f)\<close> where \<open>f\<close> may throw: the first exception ends the loop.\<close>

fun map_throwing :: "('a \<Rightarrow> message + 'b) \<Rightarrow> 'a list \<Rightarrow> message + 'b list" where
  "map_throwing f [] = Inr []"
| "map_throwing f (x # xs) =
     (case f x of
        Inl e \<Rightarrow> Inl e
      | Inr y \<Rightarrow> (case map_throwing f xs of Inl e \<Rightarrow> Inl e | Inr ys \<Rightarrow> Inr (y # ys)))"

section \<open>The attribute fetcher: \<^verbatim>\<open>fetchVacancyData\<close>\<close>

definition baseUrl :: string where
  "baseUrl = ''https://api.census.gov/data/2022/acs/acs5''"

definition tigerUrl :: string where
  "tigerUrl = ''https://tigerweb.geo.census.gov/arcgis/rest/services/TIGERweb''"

text \<open>\<^verbatim>\<open>variables.totalHousing\<close> and \<^verbatim>\<open>variables.vacant\<close>\<close>

definition variables_totalHousing :: string where
  "variables_totalHousing = ''B25002_001E''"

definition variables_vacant :: string where
  "variables_vacant = ''B25002_003E''"

record stat =
  name :: jsval
  geoid :: jsval
  totalHousing :: jsnum
  vacant :: jsnum
  vacancyRate :: string

type_synonym table = "jsval list list"

text \<open>The function mapped over the data rows (lines 204 to 216).\<close>

definition fetchVacancyData_row :: "jsval list \<Rightarrow> jsval list \<Rightarrow> stat" where
  "fetchVacancyData_row headers row =
     (let totalHousing =
            num_or (parseInt (at_index row (indexOf headers (JStr variables_totalHousing)))) (Fin 0);
          vacant =
            num_or (parseInt (at_index row (indexOf headers (JStr variables_vacant)))) (Fin 0);
          vacancyRate =
            (if js_gt totalHousing (Fin 0)
             then toFixed (js_mul (js_div vacant totalHousing) (Fin 100)) 1
             else ''0.0'')
      in \<lparr>name = at_index row 0,
          geoid = at_index row (int (length row) - 1),
          totalHousing = totalHousing,
          vacant = vacant,
          vacancyRate = vacancyRate\<rparr>)"

text \<open>
  The two cells of a row that the function reads,
  \<^verbatim>\<open>row[headers.indexOf(variables.totalHousing)]\<close> and
  \<^verbatim>\<open>row[headers.indexOf(variables.vacant)]\<close>.
\<close>

abbreviation total_cell :: "jsval list \<Rightarrow> jsval list \<Rightarrow> jsval" where
  "total_cell headers row \<equiv> at_index row (indexOf headers (JStr variables_totalHousing))"

abbreviation vacant_cell :: "jsval list \<Rightarrow> jsval list \<Rightarrow> jsval" where
  "vacant_cell headers row \<equiv> at_index row (indexOf headers (JStr variables_vacant))"

definition vacancy_request :: "string \<Rightarrow> string \<Rightarrow> string \<Rightarrow> request" where
  "vacancy_request level stateId countyId =
     Request baseUrl
       ([(''get'', ''NAME,'' @ variables_totalHousing @ '','' @ variables_vacant),
         (''for'', level @ '':*'')]
        @ (if level \<noteq> ''state''
           then [(''in'', ''state:'' @ stateId)]
                @ (if (level = ''tract'' \<or> level = ''block'') \<and> countyId \<noteq> []
                   then [(''in'', ''county:'' @ countyId)] else [])
           else []))"

text \<open>
  \<^verbatim>\<open>fetchVacancyData(level, stateId, countyId)\<close>, with the network as a function from
  requests to responses.  The status of the response is not looked at; the first row
  of the table is the header row.
\<close>

definition fetchVacancyData ::
  "(request \<Rightarrow> table response) \<Rightarrow> string \<Rightarrow> string \<Rightarrow> string \<Rightarrow> message + stat list" where
  "fetchVacancyData net level stateId countyId =
     (case (case net (vacancy_request level stateId countyId) of
              NetworkFailure \<Rightarrow> Inl (EngineText [])
            | Response _ _ Malformed \<Rightarrow> Inl (EngineText [])
            | Response _ _ Null \<Rightarrow> Inl (EngineText [])
            | Response _ _ (Json []) \<Rightarrow> Inr []
            | Response _ _ (Json (headers # rows)) \<Rightarrow> Inr (map (fetchVacancyData_row headers) rows))
      of Inl err \<Rightarrow> Inl (prefixed ''Failed to fetch vacancy data: '' err)
       | Inr rows \<Rightarrow> Inr rows)"

section \<open>Geometry documents\<close>

type_synonym ring = "(rat \<times> rat) list"

record geometry =
  gtype :: jsval
  rings :: "ring list option"
  coordinates :: "ring list option"

text \<open>
  A feature of either dialect: GeoJSON features carry \<^verbatim>\<open>properties\<close>, features of the
  query service carry \<^verbatim>\<open>attributes\<close>; a field that is absent is \<open>None\<close>.
\<close>

record feature =
  ftype :: jsval
  geometry :: "geometry option"
  properties :: "bag option"
  attributes :: "bag option"

record geodoc =
  dtype :: jsval
  features :: "feature list option"

text \<open>\<^verbatim>\<open>esriToGeoJSON\<close> (mapUtils): one output feature for each input feature.\<close>

definition esriToGeoJSON_feature :: "feature \<Rightarrow> message + feature" where
  "esriToGeoJSON_feature feature =
     (case geometry feature of
        None \<Rightarrow> Inl (EngineText [])
      | Some g \<Rightarrow>
          (case attributes feature of
             None \<Rightarrow> Inl (EngineText [])
           | Some a \<Rightarrow>
               Inr \<lparr>ftype = JStr ''Feature'',
                    geometry = Some \<lparr>gtype = JStr ''Polygon'', rings = None,
                      coordinates = (case rings g of Some r \<Rightarrow> Some r | None \<Rightarrow> coordinates g)\<rparr>,
                    properties = Some (a(''id'' \<mapsto>
                      js_or (get_prop a ''GEOID'')
                        (JStr (js_toString (js_or (get_prop a ''STATE'') (JStr []))
                             @ js_toString (js_or (get_prop a ''COUNTY'') (JStr []))
                             @ js_toString (js_or (get_prop a ''TRACT'') (JStr [])))))),
                    attributes = None\<rparr>))"

definition esriToGeoJSON :: "geodoc option \<Rightarrow> message + geodoc" where
  "esriToGeoJSON esriData =
     (case esriData of
        None \<Rightarrow> Inl (Text ''Invalid ESRI JSON data'')
      | Some d \<Rightarrow>
          (case features d of
             None \<Rightarrow> Inl (Text ''Invalid ESRI JSON data'')
           | Some fs \<Rightarrow>
               (case map_throwing esriToGeoJSON_feature fs of
                  Inl e \<Rightarrow> Inl e
                | Inr out \<Rightarrow> Inr \<lparr>dtype = JStr ''FeatureCollection'', features = Some out\<rparr>)))"

section \<open>The geometry fetcher: \<^verbatim>\<open>fetchGeoJSON\<close>\<close>

definition us_states_url :: string where
  "us_states_url =
     ''https://raw.githubusercontent.com/PublicaMundi/MappingAPI/master/data/geojson/us-states.json''"

definition query_params :: "string \<Rightarrow> (string \<times> string) list" where
  "query_params wh =
     [(''outFields'', ''*''), (''f'', ''json''), (''outSR'', ''4326''),
      (''returnGeometry'', ''true''), (''where'', wh)]"

text \<open>The filter of the state branch: \<^verbatim>\<open>feature.properties.id === stateId\<close>.\<close>

definition state_filter :: "string \<Rightarrow> feature list \<Rightarrow> message + feature list" where
  "state_filter stateId fs =
     (if \<exists>f \<in> set fs. properties f = None then Inl (EngineText [])
      else Inr (filter (\<lambda>f. case properties f of None \<Rightarrow> False
                                | Some p \<Rightarrow> get_prop p ''id'' = JStr stateId) fs))"

text \<open>The two query branches share what follows the \<^verbatim>\<open>switch\<close>.\<close>

definition query_service :: "(request \<Rightarrow> geodoc response) \<Rightarrow> request \<Rightarrow> message + geodoc option" where
  "query_service net rq =
     (case net rq of
        NetworkFailure \<Rightarrow> Inl (EngineText [])
      | Response ok st b \<Rightarrow>
          (if \<not> ok then Inl (Text (''HTTP error! status: '' @ digits st))
           else (case b of Malformed \<Rightarrow> Inl (EngineText [])
                 | Null \<Rightarrow> Inr None
                 | Json d \<Rightarrow> Inr (Some d))))"

definition fetchGeoJSON ::
  "(request \<Rightarrow> geodoc response) \<Rightarrow> string \<Rightarrow> string \<Rightarrow> string \<Rightarrow> message + geodoc option" where
  "fetchGeoJSON net level stateId countyId =
     (case (if level = ''state'' then
              (case net (Request us_states_url []) of
                 NetworkFailure \<Rightarrow> Inl (EngineText [])
               | Response _ _ Malformed \<Rightarrow> Inl (EngineText [])
               | Response _ _ Null \<Rightarrow> (if stateId \<noteq> [] then Inl (EngineText []) else Inr None)
               | Response _ _ (Json stateData) \<Rightarrow>
                   (if stateId \<noteq> [] then
                      (case features stateData of
                         None \<Rightarrow> Inl (EngineText [])
                       | Some fs \<Rightarrow>
                           (case state_filter stateId fs of
                              Inl e \<Rightarrow> Inl e
                            | Inr fs' \<Rightarrow> Inr (Some (stateData\<lparr>features := Some fs'\<rparr>))))
                    else Inr (Some stateData)))
            else if level = ''county'' then
              query_service net
                (Request (tigerUrl @ ''/State_County/MapServer/0/query'')
                   (query_params
                      (if countyId \<noteq> []
                       then ''STATE='' @ [CHR 0x27] @ stateId @ [CHR 0x27] @ '' AND COUNTY=''
                            @ [CHR 0x27] @ countyId @ [CHR 0x27]
                       else ''STATE='' @ [CHR 0x27] @ stateId @ [CHR 0x27])))
            else if level = ''tract'' then
              query_service net
                (Request (tigerUrl @ ''/Tracts_Blocks/MapServer/2/query'')
                   (query_params
                      (''STATE='' @ [CHR 0x27] @ stateId @ [CHR 0x27] @ '' AND COUNTY=''
                       @ [CHR 0x27] @ countyId @ [CHR 0x27])))
            else Inl (Text ''Invalid geography level''))
      of Inl err \<Rightarrow> Inl (prefixed ''Failed to fetch GeoJSON: '' err)
       | Inr data \<Rightarrow> Inr data)"

text \<open>
  The names the specification gives to the failures of the geometry fetcher and of the
  controller, as the messages the program produces for them.
\<close>

definition UnsupportedLevel :: message where
  "UnsupportedLevel = Text ''Failed to fetch GeoJSON: Invalid geography level''"

definition GeometryUnavailable :: message where
  "GeometryUnavailable = Text ''Failed to load county data: Invalid geometry data received''"

definition PreconditionNotMet :: message where
  "PreconditionNotMet = Text ''Please select a county first''"

section \<open>The join of features and statistics: \<^verbatim>\<open>style\<close>\<close>






section \<open>The ranked table\<close>

text \<open>
  \<^verbatim>\<open>Array.prototype.sort(compare)\<close> is stable: an element moves behind another one
  only when \<^verbatim>\<open>compare\<close> of the two is greater than zero (not-a-number counts as zero).
  It is modelled by insertion from the right.
\<close>

fun insert_by :: "('a \<Rightarrow> 'a \<Rightarrow> jsnum) \<Rightarrow> 'a \<Rightarrow> 'a list \<Rightarrow> 'a list" where
  "insert_by cmp x [] = [x]"
| "insert_by cmp x (y # ys) =
     (if js_gt (cmp x y) (Fin 0) then y # insert_by cmp x ys else x # y # ys)"

definition js_sort :: "('a \<Rightarrow> 'a \<Rightarrow> jsnum) \<Rightarrow> 'a list \<Rightarrow> 'a list" where
  "js_sort cmp xs = foldr (insert_by cmp) xs []"

text \<open>\<^verbatim>\<open>(a, b) => parseFloat(b.vacancyRate) - parseFloat(a.vacancyRate)\<close>\<close>

definition by_rate_desc :: "stat \<Rightarrow> stat \<Rightarrow> jsnum" where
  "by_rate_desc a b = js_sub (parseFloat (vacancyRate b)) (parseFloat (vacancyRate a))"

text \<open>\<^verbatim>\<open>[...vacancyData].sort(...).slice(0, 10)\<close>: the rows of the table.\<close>

definition table_rows :: "stat list \<Rightarrow> stat list" where
  "table_rows vacancyData = take 10 (js_sort by_rate_desc vacancyData)"

section \<open>The selection controller\<close>

text \<open>The state of the component that the modelled handlers read and write.\<close>

record summary =
  sname :: string
  stotalHousing :: jsnum
  svacant :: jsnum
  soccupied :: jsnum
  svacancyRate :: string

record view =
  selectedState :: string
  selectedCounty :: string
  geoLevel :: string
  geoJsonData :: "geodoc option"
  vacancyData :: "stat list"
  loading :: bool
  error :: "message option"
  countyStats :: "summary option"

text \<open>
  A fetch cycle in flight is the rest of an asynchronous function after its \<^verbatim>\<open>await\<close>,
  with the values its closure holds: of \<^verbatim>\<open>updateMap\<close> (level, state, county), of
  \<^verbatim>\<open>handleGeoLevelChange\<close> (new level, state, county) or of \<^verbatim>\<open>handleCountySelect\<close>
  (formatted state id, formatted county id).
\<close>

datatype cycle =
    UpdateMap string string string
  | GeoLevelChange string string string
  | CountySelect string string

text \<open>
  The network as a cycle meets it: the answers of the two services and, for the case
  that both requests of a cycle fail, which of the two failures arrives first.
\<close>

record network =
  geo_net :: "request \<Rightarrow> geodoc response"
  stats_net :: "request \<Rightarrow> table response"
  stats_first :: bool

text \<open>
  \<^verbatim>\<open>Promise.all([fetchGeoJSON(...), fetchVacancyData(...)])\<close>: both results, or the
  rejection that arrives first.  When only one of the two rejects it is that one.  When
  both reject, an unsupported level rejects \<^verbatim>\<open>fetchGeoJSON\<close> before any request is
  answered; otherwise it is the network that decides.
\<close>

definition fetch_both ::
  "network \<Rightarrow> string \<Rightarrow> string \<Rightarrow> string \<Rightarrow> message + (geodoc option \<times> stat list)" where
  "fetch_both net level stateId countyId =
     (case (fetchGeoJSON (geo_net net) level stateId countyId,
            fetchVacancyData (stats_net net) level stateId countyId) of
        (Inr geoData, Inr vacData) \<Rightarrow> Inr (geoData, vacData)
      | (Inl e, Inr vacData) \<Rightarrow> Inl e
      | (Inr geoData, Inl e) \<Rightarrow> Inl e
      | (Inl geoErr, Inl vacErr) \<Rightarrow>
          (if stats_first net \<and> level \<in> {''state'', ''county'', ''tract''}
           then Inl vacErr else Inl geoErr))"

subsection \<open>\<^verbatim>\<open>updateMap\<close>\<close>

text \<open>Up to the \<^verbatim>\<open>await\<close>: nothing without a selected state, else a cycle starts.\<close>

definition updateMap_start :: "view \<Rightarrow> view \<times> cycle option" where
  "updateMap_start v =
     (if selectedState v = [] then (v, None)
      else (v\<lparr>loading := True, error := None\<rparr>,
            Some (UpdateMap (geoLevel v) (selectedState v) (selectedCounty v))))"

text \<open>After the \<^verbatim>\<open>await\<close>: commit, or \<^verbatim>\<open>catch\<close>; \<^verbatim>\<open>finally\<close> ends the loading state.\<close>

definition updateMap_settle :: "network \<Rightarrow> string \<Rightarrow> string \<Rightarrow> string \<Rightarrow> view \<Rightarrow> view" where
  "updateMap_settle net level stateId countyId v =
     (case (case fetch_both net level stateId countyId of
              Inl e \<Rightarrow> Inl e
            | Inr (None, vacData) \<Rightarrow> Inl (Text ''Invalid GeoJSON data received'')
            | Inr (Some geoData, vacData) \<Rightarrow>
                (if features geoData = None then Inl (Text ''Invalid GeoJSON data received'')
                 else Inr (geoData, vacData)))
      of Inr (geoData, vacData) \<Rightarrow>
           v\<lparr>geoJsonData := Some geoData, vacancyData := vacData, loading := False\<rparr>
       | Inl err \<Rightarrow> v\<lparr>error := Some err, loading := False\<rparr>)"

subsection \<open>\<^verbatim>\<open>handleGeoLevelChange\<close>\<close>

definition handleGeoLevelChange_start :: "string \<Rightarrow> view \<Rightarrow> view \<times> cycle option" where
  "handleGeoLevelChange_start newLevel v =
     (if newLevel = ''tract'' \<and> selectedCounty v = []
      then (v\<lparr>error := Some (Text ''Please select a county first'')\<rparr>, None)
      else (v\<lparr>geoLevel := newLevel, loading := True, error := None\<rparr>,
            Some (GeoLevelChange newLevel (selectedState v) (selectedCounty v))))"

definition handleGeoLevelChange_settle ::
  "network \<Rightarrow> string \<Rightarrow> string \<Rightarrow> string \<Rightarrow> view \<Rightarrow> view" where
  "handleGeoLevelChange_settle net newLevel stateId countyId v =
     (case fetch_both net newLevel stateId countyId of
        Inr (geoData, vacData) \<Rightarrow>
          v\<lparr>geoJsonData := geoData, vacancyData := vacData, loading := False\<rparr>
      | Inl err \<Rightarrow>
          v\<lparr>error := Some (prefixed ''Failed to update geography level: '' err),
            loading := False\<rparr>)"

subsection \<open>\<^verbatim>\<open>handleCountySelect\<close>\<close>

definition handleCountySelect_start :: "string \<Rightarrow> view \<Rightarrow> view \<times> cycle option" where
  "handleCountySelect_start countyId v =
     (if loading v then (v, None)
      else let v1 = v\<lparr>selectedCounty := countyId, countyStats := None, geoLevel := ''county''\<rparr>
           in if countyId = [] \<or> selectedState v = [] then (v1, None)
              else (v1\<lparr>loading := True, error := None\<rparr>,
                    Some (CountySelect (padStart (selectedState v) 2 ''0'')
                                       (padStart countyId 3 ''0''))))"

definition county_stats_request :: "string \<Rightarrow> string \<Rightarrow> request" where
  "county_stats_request formattedStateId formattedCountyId =
     Request baseUrl
       [(''get'', ''NAME,'' @ variables_totalHousing @ '','' @ variables_vacant),
        (''for'', ''county:'' @ formattedCountyId),
        (''in'', ''state:'' @ formattedStateId)]"

definition county_geo_request :: "string \<Rightarrow> string \<Rightarrow> request" where
  "county_geo_request formattedStateId formattedCountyId =
     Request (tigerUrl @ ''/arcgis/rest/services/Census2020/State_County/MapServer/1/query'')
       [(''where'', ''STATEFP='' @ [CHR 0x27] @ formattedStateId @ [CHR 0x27]
                    @ '' AND COUNTYFP='' @ [CHR 0x27] @ formattedCountyId @ [CHR 0x27]),
        (''outFields'', ''STATEFP,COUNTYFP,NAME,GEOID''),
        (''f'', ''json''), (''outSR'', ''4326''), (''returnGeometry'', ''true''),
        (''spatialRel'', ''esriSpatialRelIntersects'')]"

text \<open>The feature built from a feature of the query service (lines 480 to 490).\<close>

definition county_feature :: "string \<Rightarrow> feature \<Rightarrow> message + feature" where
  "county_feature geoidv feature =
     (case geometry feature of
        None \<Rightarrow> Inl (EngineText [])
      | Some g \<Rightarrow>
          Inr \<lparr>ftype = JStr ''Feature'',
               geometry = Some \<lparr>
                 gtype = (if gtype g = JStr ''esriGeometryPolygon'' then JStr ''Polygon'' else gtype g),
                 rings = None,
                 coordinates = (case rings g of Some r \<Rightarrow> Some r | None \<Rightarrow> coordinates g)\<rparr>,
               properties = Some ((case attributes feature of None \<Rightarrow> Map.empty | Some a \<Rightarrow> a)
                                    (''GEOID'' \<mapsto> JStr geoidv)),
               attributes = None\<rparr>)"

text \<open>
  The \<^verbatim>\<open>try\<close> block after the two requests: the checks of the responses in the order
  of the source, then the county summary, the document and the statistics entry to
  commit.
\<close>

definition county_try ::
  "network \<Rightarrow> string \<Rightarrow> string \<Rightarrow> message + (summary \<times> geodoc \<times> stat list)" where
  "county_try net formattedStateId formattedCountyId =
     (case (stats_net net (county_stats_request formattedStateId formattedCountyId),
            geo_net net (county_geo_request formattedStateId formattedCountyId)) of
        (Response sok _ sbody, Response gok _ gbody) \<Rightarrow>
          (if \<not> sok \<or> \<not> gok then Inl (Text ''Failed to fetch county data'')
           else if sbody = Malformed \<or> gbody = Malformed then Inl (EngineText [])
           else (case sbody of
                   Json (headers # countyRow # _) \<Rightarrow>
                     (case gbody of
                        Json geoData \<Rightarrow>
                          (case features geoData of
                             None \<Rightarrow> Inl (Text ''Invalid geometry data received'')
                           | Some [] \<Rightarrow> Inl (Text ''Invalid geometry data received'')
                           | Some fs \<Rightarrow>
                               (let totalHousing = num_or (parseInt (at_index countyRow
                                      (indexOf headers (JStr variables_totalHousing)))) (Fin 0);
                                    vacant = num_or (parseInt (at_index countyRow
                                      (indexOf headers (JStr variables_vacant)))) (Fin 0);
                                    vacancyRate =
                                      (if js_gt totalHousing (Fin 0)
                                       then toFixed (js_mul (js_div vacant totalHousing) (Fin 100)) 1
                                       else ''0.0'')
                                in case at_index countyRow 0 of
                                     JStr nm \<Rightarrow>
                                       (case map_throwing
                                               (county_feature (formattedStateId @ formattedCountyId)) fs of
                                          Inl e \<Rightarrow> Inl e
                                        | Inr out \<Rightarrow>
                                            Inr (\<lparr>sname = split_comma_first nm,
                                                   stotalHousing = totalHousing,
                                                   svacant = vacant,
                                                   soccupied = js_sub totalHousing vacant,
                                                   svacancyRate = vacancyRate\<rparr>,
                                                 \<lparr>dtype = JStr ''FeatureCollection'',
                                                   features = Some out\<rparr>,
                                                 [\<lparr>name = JStr (split_comma_first nm),
                                                    geoid = JStr (formattedStateId @ formattedCountyId),
                                                    totalHousing = totalHousing,
                                                    vacant = vacant,
                                                    vacancyRate = vacancyRate\<rparr>]))
                                   | _ \<Rightarrow> Inl (EngineText [])))
                      | _ \<Rightarrow> Inl (Text ''Invalid geometry data received''))
                 | _ \<Rightarrow> Inl (Text ''Invalid statistics data received'')))
      | _ \<Rightarrow> Inl (EngineText []))"

definition handleCountySelect_settle :: "network \<Rightarrow> string \<Rightarrow> string \<Rightarrow> view \<Rightarrow> view" where
  "handleCountySelect_settle net formattedStateId formattedCountyId v =
     (case county_try net formattedStateId formattedCountyId of
        Inr (stats, geojsonData, vac) \<Rightarrow>
          v\<lparr>countyStats := Some stats, geoJsonData := Some geojsonData,
            vacancyData := vac, loading := False\<rparr>
      | Inl err \<Rightarrow>
          v\<lparr>error := Some (prefixed ''Failed to load county data: '' err),
            countyStats := None, geoJsonData := None, vacancyData := [],
            loading := False\<rparr>)"

subsection \<open>Events\<close>

text \<open>
  The component between two events: its state and the cycles in flight, oldest first.
  The user changes the level or the county through a control that is disabled while
  \<^verbatim>\<open>loading\<close> is set; a cycle in flight settles with the answers of the network.  After
  a handler has changed the selection, the effect on \<^verbatim>\<open>updateMap\<close> runs it with the new
  selection.
\<close>

record component =
  ui :: view
  pending :: "cycle list"

datatype event =
    SelectGeoLevel string
  | SelectCounty string
  | Settle nat network

definition selection :: "view \<Rightarrow> string \<times> string \<times> string" where
  "selection v = (selectedState v, selectedCounty v, geoLevel v)"

definition after_handler :: "component \<Rightarrow> view \<times> cycle option \<Rightarrow> component" where
  "after_handler c r =
     (let (v, started) = r;
          (v', effect) = (if selection v \<noteq> selection (ui c) then updateMap_start v else (v, None))
      in \<lparr>ui = v', pending = pending c @ (case started of None \<Rightarrow> [] | Some x \<Rightarrow> [x])
                                        @ (case effect of None \<Rightarrow> [] | Some x \<Rightarrow> [x])\<rparr>)"

fun settle :: "network \<Rightarrow> cycle \<Rightarrow> view \<Rightarrow> view" where
  "settle net (UpdateMap level stateId countyId) v = updateMap_settle net level stateId countyId v"
| "settle net (GeoLevelChange level stateId countyId) v =
     handleGeoLevelChange_settle net level stateId countyId v"
| "settle net (CountySelect stateId countyId) v = handleCountySelect_settle net stateId countyId v"

fun step :: "event \<Rightarrow> component \<Rightarrow> component option" where
  "step (SelectGeoLevel newLevel) c =
     (if loading (ui c) then None
      else Some (after_handler c (handleGeoLevelChange_start newLevel (ui c))))"
| "step (SelectCounty countyId) c =
     (if loading (ui c) then None
      else Some (after_handler c (handleCountySelect_start countyId (ui c))))"
| "step (Settle i net) c =
     (if i < length (pending c)
      then Some \<lparr>ui = settle net (pending c ! i) (ui c),
                 pending = take i (pending c) @ drop (Suc i) (pending c)\<rparr>
      else None)"

fun run :: "event list \<Rightarrow> component \<Rightarrow> component option" where
  "run [] c = Some c"
| "run (e # es) c = (case step e c of None \<Rightarrow> None | Some c' \<Rightarrow> run es c')"

section \<open>Scenarios\<close>

text \<open>The state of the component when it is mounted (the initial values of \<^verbatim>\<open>useState\<close>).\<close>

definition initial_view :: view where
  "initial_view =
     \<lparr>selectedState = [], selectedCounty = [], geoLevel = ''state'', geoJsonData = None,
      vacancyData = [], loading = False, error = None, countyStats = None\<rparr>"

text \<open>
  Answers of the two services, used in the examples: the national boundary document
  with the feature of California, an answer of the query service with one county and
  one without features, and the tables of the statistical service for the state and
  for its counties.
\<close>

definition states_doc :: geodoc where
  "states_doc =
     \<lparr>dtype = JStr ''FeatureCollection'',
      features = Some [\<lparr>ftype = JStr ''Feature'',
        geometry = Some \<lparr>gtype = JStr ''Polygon'', rings = None,
                         coordinates = Some [[(- 124, 42), (- 114, 32), (- 120, 39), (- 124, 42)]]\<rparr>,
        properties = Some [''id'' \<mapsto> JStr ''06'', ''name'' \<mapsto> JStr ''California''],
        attributes = None\<rparr>]\<rparr>"

definition county_doc :: geodoc where
  "county_doc =
     \<lparr>dtype = JUndefined,
      features = Some [\<lparr>ftype = JUndefined,
        geometry = Some \<lparr>gtype = JUndefined,
                         rings = Some [[(- 118, 34), (- 117, 34), (- 118, 33), (- 118, 34)]],
                         coordinates = None\<rparr>,
        properties = None,
        attributes = Some [''STATE'' \<mapsto> JStr ''06'', ''COUNTY'' \<mapsto> JStr ''037'']\<rparr>]\<rparr>"

definition no_features_doc :: geodoc where
  "no_features_doc = \<lparr>dtype = JUndefined, features = Some []\<rparr>"

definition state_table :: table where
  "state_table =
     [[JStr ''NAME'', JStr ''B25002_001E'', JStr ''B25002_003E'', JStr ''state''],
      [JStr ''California'', JStr ''1000'', JStr ''100'', JStr ''06'']]"

definition county_table :: table where
  "county_table =
     [[JStr ''NAME'', JStr ''B25002_001E'', JStr ''B25002_003E'', JStr ''state'', JStr ''county''],
      [JStr ''Los Angeles County, California'', JStr ''80'', JStr ''23'', JStr ''06'', JStr ''037'']]"

definition state_net :: network where
  "state_net = \<lparr>geo_net = (\<lambda>rq. Response True 200 (Json states_doc)),
                 stats_net = (\<lambda>rq. Response True 200 (Json state_table)),
                 stats_first = False\<rparr>"

definition county_net :: network where
  "county_net = \<lparr>geo_net = (\<lambda>rq. Response True 200 (Json county_doc)),
                  stats_net = (\<lambda>rq. Response True 200 (Json county_table)),
                  stats_first = False\<rparr>"

definition no_features_net :: network where
  "no_features_net = \<lparr>geo_net = (\<lambda>rq. Response True 200 (Json no_features_doc)),
                       stats_net = (\<lambda>rq. Response True 200 (Json county_table)),
                       stats_first = False\<rparr>"

text \<open>California is selected, its document and statistics are on display, nothing is in flight.\<close>

definition state_ready :: component where
  "state_ready =
     \<lparr>ui = initial_view\<lparr>selectedState := ''06'', geoJsonData := Some states_doc,
            vacancyData := [\<lparr>name = JStr ''California'', geoid = JStr ''06'',
                              totalHousing = Fin 1000, vacant = Fin 100, vacancyRate = ''10.0''\<rparr>]\<rparr>,
      pending = []\<rparr>"

text \<open>The same with the county 037 selected.\<close>

definition county_ready :: component where
  "county_ready =
     \<lparr>ui = (ui state_ready)\<lparr>selectedCounty := ''037'', geoLevel := ''county''\<rparr>,
      pending = []\<rparr>"

text \<open>
  A sequence of events in which a cycle is superseded: the user changes the level to
  \<^verbatim>\<open>county\<close> (a cycle of the handler and cycle A of \<^verbatim>\<open>updateMap\<close> start), the cycle of
  the handler settles and ends the loading state, the user changes the level back to
  \<^verbatim>\<open>state\<close> (a cycle of the handler and cycle B of \<^verbatim>\<open>updateMap\<close> start while A is in
  flight), B and the cycle of the handler settle with the state, and A settles last.
  \<open>superseded_pending\<close> is the component before this last event.
\<close>

definition superseded_trace :: "event list" where
  "superseded_trace =
     [SelectGeoLevel ''county'', Settle 0 county_net,
      SelectGeoLevel ''state'', Settle 2 state_net, Settle 1 state_net,
      Settle 0 county_net]"

definition superseded_pending :: component where
  "superseded_pending =
     \<lparr>ui = ui state_ready, pending = [UpdateMap ''county'' ''06'' []]\<rparr>"

text \<open>Statistics of three tracts, two of them with the same vacancy rate.\<close>

definition tied_stats :: "stat list" where
  "tied_stats =
     [\<lparr>name = JStr ''Tract 1'', geoid = JStr ''000100'', totalHousing = Fin 1000,
       vacant = Fin 100, vacancyRate = ''10.0''\<rparr>,
      \<lparr>name = JStr ''Tract 2'', geoid = JStr ''000200'', totalHousing = Fin 80,
       vacant = Fin 23, vacancyRate = ''28.7''\<rparr>,
      \<lparr>name = JStr ''Tract 3'', geoid = JStr ''000300'', totalHousing = Fin 2000,
       vacant = Fin 200, vacancyRate = ''10.0''\<rparr>]"

section \<open>Rounding to a double\<close>

lemma powi2_pos: "0 < (2::rat) powi e"
  by (simp add: power_int_def)

lemma powi2_mono: "a \<le> b \<Longrightarrow> (2::rat) powi a \<le> 2 powi b"
  by (rule power_int_increasing) simp_all

lemma powi2_strict_mono: "a < b \<Longrightarrow> (2::rat) powi a < 2 powi b"
  by (rule power_int_strict_increasing) simp_all

lemma powi2_le_iff: "(2::rat) powi a \<le> 2 powi b \<longleftrightarrow> a \<le> b"
  using powi2_mono [of a b] powi2_strict_mono [of b a] by fastforce

lemma powi2_less_iff: "(2::rat) powi a < 2 powi b \<longleftrightarrow> a < b"
  using powi2_mono [of b a] powi2_strict_mono [of a b] by fastforce

lemma powi2_nat: "0 \<le> e \<Longrightarrow> (2::rat) powi e = 2 ^ nat e"
  by (simp add: power_int_def)

lemma ilog2_ge_one:
  assumes "1 \<le> a"
  shows "2 powi (ilog2 a) \<le> a \<and> a < 2 powi (ilog2 a + 1)"
proof -
  let ?n = "\<lfloor>a\<rfloor>"
  have n: "0 < ?n" using assms by simp
  from bitlen_bounds [OF n] have lo: "2 ^ nat (bitlen ?n - 1) \<le> ?n" and hi: "?n < 2 ^ nat (bitlen ?n)"
    by simp_all
  have b1: "1 \<le> bitlen ?n" using n by (simp add: bitlen_alt_def)
  have "(2::rat) ^ nat (bitlen ?n - 1) = of_int (2 ^ nat (bitlen ?n - 1))" by simp
  also have "\<dots> \<le> of_int ?n" using lo by (simp only: of_int_le_iff)
  also have "\<dots> \<le> a" by simp
  finally have l: "(2::rat) ^ nat (bitlen ?n - 1) \<le> a" .
  have "?n + 1 \<le> 2 ^ nat (bitlen ?n)" using hi by simp
  then have "(of_int (?n + 1) :: rat) \<le> of_int (2 ^ nat (bitlen ?n))" by (simp only: of_int_le_iff)
  moreover have "a < of_int (?n + 1)" by linarith
  ultimately have h: "a < (2::rat) ^ nat (bitlen ?n)" by simp
  have e: "ilog2 a = bitlen ?n - 1" using assms by (simp add: ilog2_def)
  have "nat (bitlen ?n - 1 + 1) = nat (bitlen ?n)" by simp
  with l h b1 show ?thesis by (simp add: e powi2_nat)
qed

lemma ilog2_lt_one:
  assumes "0 < a" and "a < 1"
  shows "2 powi (ilog2 a) \<le> a \<and> a < 2 powi (ilog2 a + 1)"
proof -
  let ?y = "1 / a"
  let ?n = "\<lceil>?y\<rceil> - 1"
  let ?c = "bitlen ?n"
  have y1: "1 < ?y" using assms by simp
  then have "1 < \<lceil>?y\<rceil>" by (simp add: less_ceiling_iff)
  then have n: "0 < ?n" by simp
  from bitlen_bounds [OF n] have lo: "2 ^ nat (?c - 1) \<le> ?n" and hi: "?n < 2 ^ nat ?c"
    by simp_all
  have c1: "1 \<le> ?c" using n by (simp add: bitlen_alt_def)
  have e: "ilog2 a = - ?c" using assms by (simp add: ilog2_def)
  have hi': "\<lceil>?y\<rceil> \<le> 2 ^ nat ?c" using hi by simp
  have "?y \<le> of_int \<lceil>?y\<rceil>" by (rule le_of_int_ceiling)
  also have "\<dots> \<le> of_int (2 ^ nat ?c)" using hi' by (simp only: of_int_le_iff)
  also have "\<dots> = 2 ^ nat ?c" by simp
  finally have yle: "?y \<le> 2 ^ nat ?c" .
  have "(2::rat) ^ nat (?c - 1) = of_int (2 ^ nat (?c - 1))" by simp
  also have "\<dots> \<le> of_int ?n" using lo by (simp only: of_int_le_iff)
  also have "\<dots> < ?y" by linarith
  finally have ygt: "2 ^ nat (?c - 1) < ?y" .
  have p1: "(2::rat) powi (- ?c) = 1 / 2 ^ nat ?c"
    using c1 by (simp add: power_int_def field_simps)
  have "0 \<le> ?c - 1" using c1 by simp
  then have p2: "(2::rat) powi (- ?c + 1) = 1 / 2 ^ nat (?c - 1)"
    by (cases "?c = 1") (simp_all add: power_int_def field_simps)
  have a1: "1 / 2 ^ nat ?c \<le> a"
    using yle assms(1) by (simp add: field_simps)
  have a2: "a < 1 / 2 ^ nat (?c - 1)"
    using ygt assms(1) by (simp add: field_simps)
  from a1 a2 show ?thesis by (simp only: e p1 p2 simp_thms)
qed

lemma ilog2_bounds:
  assumes "0 < a"
  shows "2 powi (ilog2 a) \<le> a" and "a < 2 powi (ilog2 a + 1)"
  using ilog2_ge_one [of a] ilog2_lt_one [of a] assms by (cases "1 \<le> a"; simp)+

lemma ilog2_unique:
  assumes "2 powi e \<le> a" and "a < 2 powi (e + 1)"
  shows "ilog2 a = e"
proof -
  have pos: "0 < a" using assms(1) powi2_pos [of e] by linarith
  note b = ilog2_bounds [OF pos]
  have "2 powi e < (2::rat) powi (ilog2 a + 1)" using assms(1) b(2) by linarith
  then have 1: "e < ilog2 a + 1" by (simp only: powi2_less_iff)
  have "2 powi (ilog2 a) < (2::rat) powi (e + 1)" using assms(2) b(1) by linarith
  then have 2: "ilog2 a < e + 1" by (simp only: powi2_less_iff)
  from 1 2 show ?thesis by simp
qed

lemma round_half_even_near:
  assumes "of_int m - 1 / 2 < x" and "x < of_int m + 1 / 2"
  shows "round_half_even x = m"
proof (cases "of_int m \<le> x")
  case True
  then have "\<lfloor>x\<rfloor> = m" using assms by (intro floor_unique) linarith+
  then show ?thesis using assms by (simp add: round_half_even_def Let_def)
next
  case False
  then have f: "\<lfloor>x\<rfloor> = m - 1" using assms by (intro floor_unique) simp_all
  show ?thesis using assms False by (simp add: round_half_even_def Let_def f)
qed

lemma round_half_even_of_int [simp]: "round_half_even (of_int m) = m"
  by (rule round_half_even_near) simp_all

lemma fl_pos_eval:
  assumes "2 powi e \<le> x" and "x < 2 powi (e + 1)" and "- 1022 \<le> e"
    and "round_half_even (x / 2 powi (e - 52)) = m"
    and "of_int m * 2 powi (e - 52) < (2::rat) powi 1024"
  shows "fl x = Fin (of_int m * 2 powi (e - 52))"
proof -
  have pos: "0 < x" using assms(1) powi2_pos [of e] by linarith
  have "ilog2 x = e" using assms(1,2) by (rule ilog2_unique)
  then have "max (ilog2 \<bar>x\<bar>) (- 1022) = e" using pos assms(3) by simp
  with pos assms(4,5) show ?thesis by (simp add: fl_def Let_def)
qed

lemma fl_near:
  assumes "2 powi e \<le> x" and "x < 2 powi (e + 1)" and "- 1022 \<le> e" and "e \<le> 1022"
    and "of_int m - 1 / 2 < x / 2 powi (e - 52)" and "x / 2 powi (e - 52) < of_int m + 1 / 2"
    and "r = of_int m * 2 powi (e - 52)"
  shows "fl x = Fin r"
proof -
  have rh: "round_half_even (x / 2 powi (e - 52)) = m"
    using assms(5,6) by (rule round_half_even_near)
  have u: "0 < (2::rat) powi (e - 52)" by (rule powi2_pos)
  have "x / 2 powi (e - 52) < 2 powi (e + 1) / 2 powi (e - 52)"
    using assms(2) u by (simp add: divide_strict_right_mono)
  also have "\<dots> = 2 powi 53" by (simp add: power_int_diff [symmetric])
  finally have "of_int m - 1 / 2 < (2::rat) powi 53" using assms(5) by linarith
  then have "of_int m < (of_int (2 ^ 53 + 1) :: rat)" by simp
  then have "m < 2 ^ 53 + 1" by (simp only: of_int_less_iff)
  then have "m \<le> 2 ^ 53" by simp
  then have "(of_int m :: rat) \<le> of_int (2 ^ 53)" by (simp only: of_int_le_iff)
  then have le: "of_int m * 2 powi (e - 52) \<le> (2::rat) powi 53 * 2 powi (e - 52)"
    using u by (simp add: mult_right_mono)
  have "(2::rat) powi 53 * 2 powi (e - 52) = 2 powi (53 + (e - 52))"
    by (rule power_int_add [symmetric]) simp
  moreover have "53 + (e - 52) = e + 1" by simp
  ultimately have eq: "(2::rat) powi 53 * 2 powi (e - 52) = 2 powi (e + 1)" by (simp only:)
  have "e + 1 < 1024" using assms(4) by simp
  then have "(2::rat) powi (e + 1) < 2 powi 1024" by (rule powi2_strict_mono)
  with le eq have "of_int m * 2 powi (e - 52) < (2::rat) powi 1024" by linarith
  from fl_pos_eval [OF assms(1,2,3) rh this] assms(7) show ?thesis by simp
qed

lemma fl_nat_exact:
  assumes "n \<le> 2 ^ 53"
  shows "fl (of_nat n) = Fin (of_nat n)"
proof (cases "n = 0")
  case True
  then show ?thesis by (simp add: fl_def)
next
  case False
  let ?x = "of_nat n :: rat"
  let ?e = "ilog2 ?x"
  have pos: "0 < ?x" using False by simp
  note b = ilog2_bounds [OF pos]
  have "(2::rat) powi 0 \<le> ?x" using False by simp
  with b(2) have "(2::rat) powi 0 < 2 powi (?e + 1)" by linarith
  then have "0 < ?e + 1" by (simp only: powi2_less_iff)
  then have e0: "0 \<le> ?e" by simp
  have "?x \<le> of_nat (2 ^ 53)" using assms by (simp only: of_nat_le_iff)
  then have "?x < (2::rat) powi 54" by simp
  with b(1) have "(2::rat) powi ?e < 2 powi 54" by linarith
  then have "?e < 54" by (simp only: powi2_less_iff)
  then have e53: "?e \<le> 53" by simp
  show ?thesis
  proof (cases "?e \<le> 52")
    case True
    let ?k = "nat (52 - ?e)"
    have u: "(2::rat) powi (?e - 52) = 1 / 2 ^ ?k"
      using True by (simp add: power_int_def field_simps)
    have "?x / 2 powi (?e - 52) = of_int (int n * 2 ^ ?k)" by (simp add: u)
    then have rh: "round_half_even (?x / 2 powi (?e - 52)) = int n * 2 ^ ?k"
      by (simp only: round_half_even_of_int)
    have r: "of_int (int n * 2 ^ ?k) * (2::rat) powi (?e - 52) = ?x" by (simp add: u)
    have "?x < (2::rat) powi 1024" using \<open>?x < 2 powi 54\<close> powi2_strict_mono [of 54 1024] by linarith
    then have "of_int (int n * 2 ^ ?k) * (2::rat) powi (?e - 52) < 2 powi 1024" by (simp only: r)
    from fl_pos_eval [OF b(1) b(2) _ rh this] e0 show ?thesis by (simp only: r)
  next
    case False
    with e53 have e: "?e = 53" by simp
    from b(1) have "(2::rat) ^ 53 \<le> ?x" by (simp add: e)
    with \<open>?x \<le> of_nat (2 ^ 53)\<close> have x: "?x = 2 ^ 53" by simp
    show ?thesis
      unfolding x
      by (rule fl_near [where e = 53 and m = "2 ^ 52"]) simp_all
  qed
qed

lemma floor_numeral_div [simp]:
  "\<lfloor>numeral a / numeral b :: rat\<rfloor> = numeral a div numeral b"
  using floor_divide_of_int_eq [of "numeral a" "numeral b", where ?'a = rat] by simp

lemma fl_minus: "fl (- x) = js_neg (fl x)"
  by (simp add: fl_def js_neg_def Let_def)

lemma fl_numeral_exact:
  "numeral k \<le> (2::nat) ^ 53 \<Longrightarrow> fl (numeral k) = Fin (numeral k)"
  using fl_nat_exact [of "numeral k"] by simp

section \<open>Doubles lie on a grid, and the sign of a difference\<close>

lemma on_gridI: "r * 2 ^ 1074 = of_int M \<Longrightarrow> on_grid r"
  by (simp add: on_grid_def)

lemma on_gridE:
  assumes "on_grid r"
  obtains M :: int where "r * 2 ^ 1074 = of_int M"
  using assms unfolding on_grid_def by metis

lemma on_grid_minus: "on_grid r \<Longrightarrow> on_grid (- r)"
proof -
  assume "on_grid r"
  then obtain M :: int where "r * 2 ^ 1074 = of_int M" by (rule on_gridE)
  then have "(- r) * 2 ^ 1074 = of_int (- M)" by simp
  then show ?thesis by (rule on_gridI)
qed

lemma powi2_grid:
  assumes "- 1022 \<le> e"
  shows "(2::rat) powi (e - 52) * 2 powi 1074 = of_int (2 ^ nat (e + 1022))"
proof -
  have "(2::rat) powi (e - 52) * 2 powi 1074 = 2 powi ((e - 52) + 1074)"
    by (rule power_int_add [symmetric]) simp
  moreover have "(e - 52) + 1074 = int (nat (e + 1022))" using assms by simp
  ultimately have "(2::rat) powi (e - 52) * 2 powi 1074 = 2 powi int (nat (e + 1022))"
    by (simp only:)
  then show ?thesis by (simp only: power_int_of_nat of_int_power of_int_numeral)
qed

lemma scaled_on_grid:
  assumes "- 1022 \<le> e"
  shows "on_grid (of_int m * 2 powi (e - 52))"
proof -
  have p: "(2::rat) powi 1074 = 2 ^ 1074" by (rule power_int_numeral)
  have "of_int m * 2 powi (e - 52) * (2::rat) powi 1074
          = of_int m * (2 powi (e - 52) * 2 powi 1074)"
    by (simp only: mult.assoc)
  also have "\<dots> = of_int m * of_int (2 ^ nat (e + 1022))"
    by (simp only: powi2_grid [OF assms])
  also have "\<dots> = of_int (m * 2 ^ nat (e + 1022))" by (simp only: of_int_mult)
  finally have "of_int m * 2 powi (e - 52) * (2::rat) ^ 1074 = of_int (m * 2 ^ nat (e + 1022))"
    by (simp only: p)
  then show ?thesis by (rule on_gridI)
qed

lemma fl_on_grid:
  assumes "fl x = Fin r"
  shows "on_grid r"
proof (cases "x = 0")
  case True
  with assms have "r = 0" by (simp add: fl_def)
  then show ?thesis by (simp add: on_grid_def)
next
  case False
  define e where "e = max (ilog2 \<bar>x\<bar>) (- 1022)"
  define m where "m = round_half_even (\<bar>x\<bar> / 2 powi (e - 52))"
  have e: "- 1022 \<le> e" by (simp add: e_def)
  have "fl x = (if 2 powi 1024 \<le> of_int m * (2::rat) powi (e - 52)
                then (if x < 0 then NegInf else PosInf)
                else Fin (if x < 0 then - (of_int m * 2 powi (e - 52)) else of_int m * 2 powi (e - 52)))"
    using False unfolding fl_def Let_def e_def m_def by (simp only: if_False)
  with assms have r: "r = (if x < 0 then - (of_int m * 2 powi (e - 52)) else of_int m * 2 powi (e - 52))"
    by (simp split: if_splits)
  from scaled_on_grid [OF e, of m] show ?thesis
    unfolding r by (simp only: on_grid_minus split: if_split) simp
qed

lemma round_half_even_ge_floor: "\<lfloor>x\<rfloor> \<le> round_half_even x"
  by (simp add: round_half_even_def Let_def)

lemma round_half_even_pos: "1 \<le> x \<Longrightarrow> 1 \<le> round_half_even x"
proof -
  assume "1 \<le> x"
  then have "1 \<le> \<lfloor>x\<rfloor>" by simp
  with round_half_even_ge_floor [of x] show ?thesis by linarith
qed

lemma round_half_even_nonneg: "0 \<le> x \<Longrightarrow> 0 \<le> round_half_even x"
proof -
  assume "0 \<le> x"
  then have "0 \<le> \<lfloor>x\<rfloor>" by simp
  with round_half_even_ge_floor [of x] show ?thesis by linarith
qed

lemma fl_cases:
  assumes "x \<noteq> 0"
  obtains m :: int and u :: rat where "0 < u"
    and "m = round_half_even (\<bar>x\<bar> / u)"
    and "u = 2 powi (max (ilog2 \<bar>x\<bar>) (- 1022) - 52)"
    and "fl x = (if 2 powi 1024 \<le> of_int m * u then (if x < 0 then NegInf else PosInf)
                 else Fin (if x < 0 then - (of_int m * u) else of_int m * u))"
proof -
  define u where "u = (2::rat) powi (max (ilog2 \<bar>x\<bar>) (- 1022) - 52)"
  define m where "m = round_half_even (\<bar>x\<bar> / u)"
  have "0 < u" unfolding u_def by (rule powi2_pos)
  moreover have "fl x = (if 2 powi 1024 \<le> of_int m * u then (if x < 0 then NegInf else PosInf)
                 else Fin (if x < 0 then - (of_int m * u) else of_int m * u))"
    using assms unfolding fl_def Let_def m_def u_def by (simp only: if_False)
  ultimately show thesis using that [of u m] m_def u_def by blast
qed

lemma fl_positive:
  assumes "2 powi (- 1074) \<le> z"
  shows "js_gt (fl z) (Fin 0)"
proof -
  have pos: "0 < z" using assms powi2_pos [of "- 1074"] by linarith
  then have "z \<noteq> 0" by simp
  then obtain m :: int and u :: rat where u0: "0 < u"
    and m: "m = round_half_even (\<bar>z\<bar> / u)"
    and u: "u = 2 powi (max (ilog2 \<bar>z\<bar>) (- 1022) - 52)"
    and f: "fl z = (if 2 powi 1024 \<le> of_int m * u then (if z < 0 then NegInf else PosInf)
                 else Fin (if z < 0 then - (of_int m * u) else of_int m * u))"
    by (rule fl_cases)
  have az: "\<bar>z\<bar> = z" using pos by simp
  have "u \<le> z"
  proof (cases "- 1022 \<le> ilog2 z")
    case True
    then have "max (ilog2 z) (- 1022) - 52 \<le> ilog2 z" by simp
    then have "u \<le> 2 powi (ilog2 z)" unfolding u az by (rule powi2_mono)
    with ilog2_bounds(1) [OF pos] show ?thesis by linarith
  next
    case False
    then have "max (ilog2 z) (- 1022) - 52 = - 1074" by simp
    then have "u = 2 powi (- 1074)" unfolding u az by (simp only:)
    with assms show ?thesis by (simp only:)
  qed
  then have "1 \<le> z / u" using u0 by simp
  then have "1 \<le> m" unfolding m az by (rule round_half_even_pos)
  then have "(1::rat) \<le> of_int m" by simp
  then have "0 < of_int m * u" using u0 by (simp add: zero_less_mult_iff)
  then show ?thesis using pos unfolding f by (simp add: js_gt_def)
qed

lemma fl_not_positive:
  assumes "z \<le> 0"
  shows "\<not> js_gt (fl z) (Fin 0)"
proof (cases "z = 0")
  case True
  then show ?thesis by (simp add: fl_def js_gt_def)
next
  case False
  with assms have neg: "z < 0" by simp
  from False obtain m :: int and u :: rat where u0: "0 < u"
    and m: "m = round_half_even (\<bar>z\<bar> / u)"
    and f: "fl z = (if 2 powi 1024 \<le> of_int m * u then (if z < 0 then NegInf else PosInf)
                 else Fin (if z < 0 then - (of_int m * u) else of_int m * u))"
    by (rule fl_cases)
  have "0 \<le> \<bar>z\<bar> / u" using u0 by simp
  then have "0 \<le> m" unfolding m by (rule round_half_even_nonneg)
  then have "0 \<le> of_int m * u" using u0 by simp
  then show ?thesis using neg unfolding f by (simp add: js_gt_def)
qed

lemma grid_gap:
  assumes "on_grid x" and "on_grid y" and "x < y"
  shows "2 powi (- 1074) \<le> y - x"
proof -
  from assms(1) obtain X :: int where X: "x * 2 ^ 1074 = of_int X" by (rule on_gridE)
  from assms(2) obtain Y :: int where Y: "y * 2 ^ 1074 = of_int Y" by (rule on_gridE)
  have p: "(0::rat) < 2 ^ 1074" by (rule zero_less_power) simp
  have "x * 2 ^ 1074 < y * 2 ^ 1074" using assms(3) p by (rule mult_strict_right_mono)
  then have "(of_int X :: rat) < of_int Y" by (simp only: X Y)
  then have "X < Y" by (simp only: of_int_less_iff)
  then have "X + 1 \<le> Y" by simp
  then have "(of_int (X + 1) :: rat) \<le> of_int Y" by (simp only: of_int_le_iff)
  then have "1 \<le> y * 2 ^ 1074 - x * 2 ^ 1074" unfolding X Y by simp
  then have "1 \<le> (y - x) * 2 ^ 1074" by (simp only: left_diff_distrib)
  then have "1 / 2 ^ 1074 \<le> y - x" using p by (simp only: pos_divide_le_eq)
  moreover have "(2::rat) powi (- 1074) = 1 / 2 ^ 1074"
    by (simp only: power_int_minus_divide power_int_numeral)
  ultimately show ?thesis by (simp only:)
qed

lemma js_sub_sign_fin:
  assumes "on_grid x" and "on_grid y"
  shows "js_gt (js_sub (Fin y) (Fin x)) (Fin 0) = (x < y)"
proof (cases "x < y")
  case True
  with assms have "2 powi (- 1074) \<le> y - x" by (rule grid_gap)
  then have "js_gt (fl (y - x)) (Fin 0)" by (rule fl_positive)
  with True show ?thesis by simp
next
  case False
  then have "y - x \<le> 0" by simp
  then have "\<not> js_gt (fl (y - x)) (Fin 0)" by (rule fl_not_positive)
  with False show ?thesis by simp
qed

lemma js_sub_sign:
  assumes "is_double a" and "is_double b" and "a \<noteq> NaN" and "b \<noteq> NaN"
  shows "js_gt (js_sub b a) (Fin 0) = js_lt a b"
proof (cases a)
  case NaN
  with assms show ?thesis by simp
next
  case NegInf
  with assms show ?thesis by (cases b) (simp_all add: js_gt_def)
next
  case PosInf
  with assms show ?thesis by (cases b) (simp_all add: js_gt_def)
next
  case (Fin x)
  note a = this
  show ?thesis
  proof (cases b)
    case (Fin y)
    from assms(1,2) a Fin have "on_grid x" "on_grid y" by (simp_all add: is_double_def)
    then have "js_gt (js_sub (Fin y) (Fin x)) (Fin 0) = (x < y)" by (rule js_sub_sign_fin)
    with a Fin show ?thesis by simp
  qed (use assms a in \<open>simp_all add: js_gt_def\<close>)
qed

lemma is_double_neg: "is_double v \<Longrightarrow> is_double (js_neg v)"
  by (cases v) (simp_all add: is_double_def js_neg_def on_grid_minus)

lemma is_double_fl: "is_double (fl x)"
  by (cases "fl x") (simp_all add: is_double_def fl_on_grid)

lemma is_double_parseFloat: "is_double (parseFloat s)"
proof -
  have inf: "is_double PosInf" "is_double NegInf" "is_double NaN" by (simp_all add: is_double_def)
  show ?thesis
    unfolding parseFloat_def Let_def
    by (simp only: is_double_neg is_double_fl inf if_split [of is_double] simp_thms if_cancel)
qed

section \<open>Rounding does not leave a binary interval\<close>

text \<open>
  Rounding to an integer does not pass an integer bound, and rounding to a double does
  not pass a power of two: a double below \<open>2 powi k\<close> stays finite and below it.
\<close>

lemma round_half_even_le:
  assumes "x \<le> of_int N"
  shows "round_half_even x \<le> N"
proof (cases "\<lfloor>x\<rfloor> = N")
  case True
  then have "of_int N \<le> x" using of_int_floor_le [of x] by simp
  with assms have "x = of_int N" by simp
  then show ?thesis by simp
next
  case False
  have "\<lfloor>x\<rfloor> \<le> N" using assms by (simp add: floor_le_iff)
  with False have "\<lfloor>x\<rfloor> + 1 \<le> N" by simp
  moreover have "round_half_even x \<le> \<lfloor>x\<rfloor> + 1" by (simp add: round_half_even_def Let_def)
  ultimately show ?thesis by linarith
qed

lemma fl_le_pow2:
  assumes "0 \<le> x" and "x \<le> 2 powi k" and "- 1022 \<le> k" and "k \<le> 1023"
  shows "\<exists>r. fl x = Fin r \<and> 0 \<le> r \<and> r \<le> 2 powi k"
proof (cases "x = 0")
  case True
  have "(0::rat) \<le> 2 powi k" using powi2_pos [of k] by simp
  with True show ?thesis by (simp add: fl_def)
next
  case False
  with assms(1) have pos: "0 < x" by simp
  from False obtain m :: int and u :: rat where u0: "0 < u"
    and m: "m = round_half_even (\<bar>x\<bar> / u)"
    and u: "u = 2 powi (max (ilog2 \<bar>x\<bar>) (- 1022) - 52)"
    and f: "fl x = (if 2 powi 1024 \<le> of_int m * u then (if x < 0 then NegInf else PosInf)
                 else Fin (if x < 0 then - (of_int m * u) else of_int m * u))"
    by (rule fl_cases)
  define e where "e = max (ilog2 x) (- 1022)"
  have ax: "\<bar>x\<bar> = x" using pos by simp
  have ue: "u = 2 powi (e - 52)" using u by (simp only: e_def ax)
  have "2 powi (ilog2 x) \<le> x" using pos by (rule ilog2_bounds)
  with assms(2) have "(2::rat) powi (ilog2 x) \<le> 2 powi k" by linarith
  then have "ilog2 x \<le> k" by (simp only: powi2_le_iff)
  with assms(3) have ek: "e \<le> k" by (simp add: e_def)
  define j where "j = nat (k - e + 52)"
  have kj: "k = (e - 52) + int j" using ek by (simp add: j_def)
  have pk: "(2::rat) powi k = 2 ^ j * u"
  proof -
    have "(2::rat) powi k = 2 powi (e - 52) * 2 powi (int j)"
      by (subst kj) (rule power_int_add, simp)
    then show ?thesis by (simp add: ue)
  qed
  have "x / u \<le> 2 ^ j" using assms(2) u0 by (simp add: pk pos_divide_le_eq)
  then have "x / u \<le> of_int (2 ^ j)" by simp
  then have mle: "m \<le> 2 ^ j" unfolding m ax by (rule round_half_even_le)
  have "0 \<le> x / u" using pos u0 by simp
  then have m0: "0 \<le> m" unfolding m ax by (rule round_half_even_nonneg)
  have "(of_int m :: rat) \<le> of_int (2 ^ j)" using mle by (simp only: of_int_le_iff)
  then have "(of_int m :: rat) \<le> 2 ^ j" by simp
  then have rle: "of_int m * u \<le> 2 powi k" using u0 by (simp add: pk)
  have r0: "0 \<le> of_int m * u" using m0 u0 by simp
  have "k < 1024" using assms(4) by simp
  then have "(2::rat) powi k < 2 powi 1024" by (rule powi2_strict_mono)
  with rle have "\<not> 2 powi 1024 \<le> of_int m * u" by linarith
  moreover have "\<not> x < 0" using pos by simp
  ultimately have "fl x = Fin (of_int m * u)" using f by (simp only: if_False)
  with r0 rle show ?thesis by blast
qed

section \<open>Two rows of the statistical service, evaluated\<close>

lemma toFixed_10: "toFixed (Fin 10) (Suc 0) = ''10.0''"
  by (simp add: toFixed_def Let_def digit_char_def)

lemma fl_tenth: "fl (1 / 10) = Fin (3602879701896397 / 36028797018963968)"
  by (rule fl_near [where e = "-4" and m = "7205759403792794"]) simp_all

lemma fl_ten: "fl (90071992547409925 / 9007199254740992) = Fin 10"
  by (rule fl_near [where e = "3" and m = "5629499534213120"]) simp_all

lemma parseInt_1000: "parseInt (JStr ''1000'') = Fin 1000"
  by (simp add: parseInt_def parseInt_string_def Let_def is_space_def radix_digit_def
      digits_value_def fl_numeral_exact)

lemma parseInt_100: "parseInt (JStr ''100'') = Fin 100"
  by (simp add: parseInt_def parseInt_string_def Let_def is_space_def radix_digit_def
      digits_value_def fl_numeral_exact)

lemma state_row_eval:
  "fetchVacancyData_row
     [JStr ''NAME'', JStr ''B25002_001E'', JStr ''B25002_003E'', JStr ''state'']
     [JStr ''California'', JStr ''1000'', JStr ''100'', JStr ''06'']
   = \<lparr>name = JStr ''California'', geoid = JStr ''06'', totalHousing = Fin 1000,
      vacant = Fin 100, vacancyRate = ''10.0''\<rparr>"
  by (simp add: fetchVacancyData_row_def Let_def at_index_def variables_totalHousing_def
      variables_vacant_def parseInt_1000 parseInt_100 num_or_def js_gt_def fl_tenth fl_ten
      toFixed_10)

lemma parseInt_80: "parseInt (JStr ''80'') = Fin 80"
  by (simp add: parseInt_def parseInt_string_def Let_def is_space_def radix_digit_def
      digits_value_def fl_numeral_exact)

lemma parseInt_23: "parseInt (JStr ''23'') = Fin 23"
  by (simp add: parseInt_def parseInt_string_def Let_def is_space_def radix_digit_def
      digits_value_def fl_numeral_exact)

lemma fl_23_80: "fl (23 / 80) = Fin (2589569785738035 / 9007199254740992)"
  by (rule fl_near [where e = "-2" and m = "5179139571476070"]) simp_all

lemma fl_23_80_100:
  "fl (64739244643450875 / 2251799813685248) = Fin (8092405580431359 / 281474976710656)"
  by (rule fl_near [where e = "4" and m = "8092405580431359"]) simp_all

lemma toFixed_28_7: "toFixed (Fin (8092405580431359 / 281474976710656)) (Suc 0) = ''28.7''"
  by (simp add: toFixed_def Let_def digit_char_def)

lemma county_row_eval:
  "fetchVacancyData_row
     [JStr ''NAME'', JStr ''B25002_001E'', JStr ''B25002_003E'', JStr ''state'', JStr ''county'']
     [JStr ''Los Angeles County, California'', JStr ''80'', JStr ''23'', JStr ''06'', JStr ''037'']
   = \<lparr>name = JStr ''Los Angeles County, California'', geoid = JStr ''037'',
      totalHousing = Fin 80, vacant = Fin 23, vacancyRate = ''28.7''\<rparr>"
  by (simp add: fetchVacancyData_row_def Let_def at_index_def variables_totalHousing_def
      variables_vacant_def parseInt_80 parseInt_23 num_or_def js_gt_def fl_23_80 fl_23_80_100
      toFixed_28_7)

lemma parseFloat_10_0: "parseFloat ''10.0'' = Fin 10"
  by (simp add: parseFloat_def Let_def is_space_def is_digit_def radix_digit_def
      digits_value_def fl_numeral_exact)

lemma fl_28_7: "fl (287 / 10) = Fin (8078331831595827 / 281474976710656)"
  by (rule fl_near [where e = "4" and m = "8078331831595827"]) simp_all

lemma parseFloat_28_7: "parseFloat ''28.7'' = Fin (8078331831595827 / 281474976710656)"
  by (simp add: parseFloat_def Let_def is_space_def is_digit_def radix_digit_def
      digits_value_def fl_28_7)

section \<open>The two fetches of a cycle\<close>

text \<open>
  When one of the two fetches fails, the cycle fails with its failure; when both fail,
  with the failure that arrives first; and for a level that the geometry fetcher does
  not support, with that failure, whatever the network answers.
\<close>

lemma fetch_both_one_rejection:
  "fetchGeoJSON (geo_net net) level sid cid = Inl ge \<Longrightarrow>
   fetchVacancyData (stats_net net) level sid cid = Inr vd \<Longrightarrow>
   fetch_both net level sid cid = Inl ge"
  "fetchGeoJSON (geo_net net) level sid cid = Inr gd \<Longrightarrow>
   fetchVacancyData (stats_net net) level sid cid = Inl ve \<Longrightarrow>
   fetch_both net level sid cid = Inl ve"
  by (simp_all add: fetch_both_def)

lemma fetch_both_first_rejection:
  assumes "fetchGeoJSON (geo_net net) level sid cid = Inl ge"
    and "fetchVacancyData (stats_net net) level sid cid = Inl ve"
    and "level \<in> {''state'', ''county'', ''tract''}"
  shows "fetch_both net level sid cid = Inl (if stats_first net then ve else ge)"
  using assms by (simp add: fetch_both_def)

lemma fetch_both_unsupported_level:
  assumes "level \<notin> {''state'', ''county'', ''tract''}"
  shows "fetch_both net level sid cid = Inl UnsupportedLevel"
proof -
  have g: "fetchGeoJSON (geo_net net) level sid cid = Inl UnsupportedLevel"
    using assms by (simp add: fetchGeoJSON_def UnsupportedLevel_def)
  show ?thesis
    using assms
    by (cases "fetchVacancyData (stats_net net) level sid cid") (simp_all add: fetch_both_def g)
qed

section \<open>Cycles that settle out of order\<close>

lemma fetch_both_state_net:
  "fetch_both state_net ''state'' ''06'' [] =
     Inr (Some states_doc,
          [\<lparr>name = JStr ''California'', geoid = JStr ''06'', totalHousing = Fin 1000,
            vacant = Fin 100, vacancyRate = ''10.0''\<rparr>])"
  by (simp add: fetch_both_def fetchGeoJSON_def fetchVacancyData_def state_net_def
      states_doc_def state_table_def state_filter_def get_prop_def state_row_eval)

lemma fetch_both_county_net:
  "fetch_both county_net ''county'' ''06'' [] =
     Inr (Some county_doc,
          [\<lparr>name = JStr ''Los Angeles County, California'', geoid = JStr ''037'',
            totalHousing = Fin 80, vacant = Fin 23, vacancyRate = ''28.7''\<rparr>])"
  by (simp add: fetch_both_def fetchGeoJSON_def fetchVacancyData_def county_net_def
      query_service_def county_table_def county_row_eval)

text \<open>
  Whether a cycle commits does not depend on the cycles started after it: a cycle of
  \<^verbatim>\<open>updateMap\<close> that settles with a document that has features commits its geometry
  and its statistics, at whatever position it stands among the cycles in flight.
\<close>

lemma updateMap_cycle_commits_at_any_position:
  assumes "i < length (pending c)"
    and "pending c ! i = UpdateMap level stateId countyId"
    and "fetch_both net level stateId countyId = Inr (Some geoData, vacData)"
    and "features geoData \<noteq> None"
  shows "step (Settle i net) c
           = Some \<lparr>ui = (ui c)\<lparr>geoJsonData := Some geoData, vacancyData := vacData,
                                  loading := False\<rparr>,
                   pending = take i (pending c) @ drop (Suc i) (pending c)\<rparr>"
proof -
  from assms(4) obtain fs where "features geoData = Some fs" by blast
  with assms(1,2,3) show ?thesis by (simp add: updateMap_settle_def)
qed

text \<open>
  What the program does to keep cycles from overlapping: while \<^verbatim>\<open>loading\<close> is set the
  controls are disabled, and no selection is taken.
\<close>

lemma no_selection_while_loading:
  assumes "loading (ui c)"
  shows "step (SelectGeoLevel newLevel) c = None" and "step (SelectCounty countyId) c = None"
  using assms by simp_all

text \<open>
  But a change of the selection starts two cycles, that of the handler and that of the
  effect on \<^verbatim>\<open>updateMap\<close>, and the first of the two to settle ends the loading state
  while the other is in flight.
\<close>

lemma selection_starts_two_cycles:
  "step (SelectGeoLevel ''county'') state_ready
     = Some \<lparr>ui = (ui state_ready)\<lparr>geoLevel := ''county'', loading := True\<rparr>,
             pending = [GeoLevelChange ''county'' ''06'' [], UpdateMap ''county'' ''06'' []]\<rparr>"
  by (simp add: state_ready_def initial_view_def handleGeoLevelChange_start_def
      after_handler_def selection_def updateMap_start_def)

text \<open>
  C1.  Cycle A is started and cycle B is started before A settles; the geometry and the
  statistics on display are to be those of B and never those of A, in whatever order
  the two settle.  The program does not keep to it.  California is on display.  After
  the events of \<open>superseded_trace\<close> but the last, cycle B of \<^verbatim>\<open>updateMap\<close> (level
  \<^verbatim>\<open>state\<close>) has committed the state, and cycle A (level \<^verbatim>\<open>county\<close>), started before
  B, is the one cycle still in flight.  Then A settles: the counties and the county
  statistics of cycle A are on display for the level \<^verbatim>\<open>state\<close>, and nothing is in flight
  that would replace them.
\<close>

theorem superseded_cycle_overwrites_newer_result:
  "run (butlast superseded_trace) state_ready = Some superseded_pending
   \<and> geoJsonData (ui superseded_pending) = Some states_doc
   \<and> geoLevel (ui superseded_pending) = ''state''
   \<and> run superseded_trace state_ready
     = Some \<lparr>ui = \<lparr>selectedState = ''06'', selectedCounty = [], geoLevel = ''state'',
                    geoJsonData = Some county_doc,
                    vacancyData = [\<lparr>name = JStr ''Los Angeles County, California'',
                      geoid = JStr ''037'', totalHousing = Fin 80, vacant = Fin 23,
                      vacancyRate = ''28.7''\<rparr>],
                    loading = False, error = None, countyStats = None\<rparr>,
             pending = []\<rparr>
   \<and> county_doc \<noteq> states_doc"
  by (simp add: superseded_trace_def superseded_pending_def state_ready_def initial_view_def
      handleGeoLevelChange_start_def after_handler_def selection_def updateMap_start_def
      updateMap_settle_def handleGeoLevelChange_settle_def
      fetch_both_state_net fetch_both_county_net)
     (simp add: county_doc_def states_doc_def)
section \<open>The vacancy rate of an attribute row\<close>

lemma digits_small: "n < 10 \<Longrightarrow> digits n = [digit_char n]"
  by (subst digits.simps) simp

lemma digits_large: "\<not> n < 10 \<Longrightarrow> digits n = digits (n div 10) @ [digit_char (n mod 10)]"
  by (subst digits.simps) simp

lemma digits_not_empty: "digits n \<noteq> []"
  by (subst digits.simps) simp

text \<open>Below \<open>10 ^ 21\<close>, \<^verbatim>\<open>toFixed(1)\<close> is rounding to one decimal place.\<close>

lemma toFixed_one_decimal:
  assumes "\<bar>q\<bar> < 10 ^ 21"
  shows "toFixed (Fin q) 1 = rounded_one_decimal q"
proof -
  define n where "n = nat \<lfloor>\<bar>q\<bar> * 10 + 1 / 2\<rfloor>"
  have not_large: "\<not> (10 ^ 21 \<le> \<bar>q\<bar>)" using assms by simp
  show ?thesis
  proof (cases "n < 10")
    case True
    then have d: "digits n = [digit_char n]" "digits (n div 10) = ''0''" "n mod 10 = n"
      by (simp_all add: digits_small digit_char_def)
    have d0: "digits 0 = ''0''" by (simp add: digit_char_def)
    show ?thesis
      using not_large True
      by (simp add: toFixed_def rounded_one_decimal_def Let_def n_def [symmetric] d d0
          del: digits.simps)
  next
    case False
    then have d: "digits n = digits (n div 10) @ [digit_char (n mod 10)]"
      by (rule digits_large)
    have l: "0 < length (digits (n div 10))"
      using digits_not_empty [of "n div 10"] by (simp del: digits.simps)
    show ?thesis
      using not_large l False
      by (simp add: toFixed_def rounded_one_decimal_def Let_def n_def [symmetric] d
          del: digits.simps)
  qed
qed

text \<open>The tenths are the nearest ones.\<close>

lemma tenths_nearest:
  "\<bar>of_int \<lfloor>\<bar>q\<bar> * 10 + 1 / 2\<rfloor> / 10 - \<bar>q\<bar>\<bar> \<le> (1 / 20 :: rat)"
proof -
  define a where "a = \<bar>q\<bar>"
  define t :: rat where "t = of_int \<lfloor>a * 10 + 1 / 2\<rfloor>"
  have "t \<le> a * 10 + 1 / 2" unfolding t_def by (rule of_int_floor_le)
  moreover have "a * 10 + 1 / 2 < t + 1" unfolding t_def by linarith
  ultimately have "\<bar>t / 10 - a\<bar> \<le> 1 / 20" unfolding abs_le_iff by (auto; linarith)
  then show ?thesis by (simp only: t_def a_def)
qed

lemma indexOf_absent: "v \<notin> set hs \<Longrightarrow> indexOf hs v = - 1"
  by (induction hs) (auto simp: Let_def)

lemma parseInt_undefined: "parseInt JUndefined = NaN"
  by (simp add: parseInt_def parseInt_string_def Let_def is_space_def radix_digit_def)

lemma parseInt_null: "parseInt JNull = NaN"
  by (simp add: parseInt_def parseInt_string_def Let_def is_space_def radix_digit_def)

lemma num_or_not_NaN: "num_or a (Fin 0) \<noteq> NaN"
  by (simp add: num_or_def)

lemma fetchVacancyData_row_totalHousing:
  "totalHousing (fetchVacancyData_row headers row)
     = num_or (parseInt (at_index row (indexOf headers (JStr variables_totalHousing)))) (Fin 0)"
  by (simp add: fetchVacancyData_row_def Let_def)

lemma fetchVacancyData_row_vacant:
  "vacant (fetchVacancyData_row headers row)
     = num_or (parseInt (at_index row (indexOf headers (JStr variables_vacant)))) (Fin 0)"
  by (simp add: fetchVacancyData_row_def Let_def)

lemma fetchVacancyData_row_vacancyRate:
  "vacancyRate (fetchVacancyData_row headers row)
     = (if js_gt (totalHousing (fetchVacancyData_row headers row)) (Fin 0)
        then toFixed (js_mul (js_div (vacant (fetchVacancyData_row headers row))
                                     (totalHousing (fetchVacancyData_row headers row)))
                             (Fin 100)) 1
        else ''0.0'')"
  by (simp add: fetchVacancyData_row_def Let_def)

text \<open>
  A cell that is a decimal integer: \<^verbatim>\<open>parseInt\<close> reads all of it, and up to \<open>2 ^ 53\<close>
  the double it gives is that integer.
\<close>

lemma is_digit_facts:
  assumes "is_digit c"
  shows "\<not> is_space c" and "c \<noteq> CHR ''-''" and "c \<noteq> CHR ''+''" and "c \<noteq> CHR ''x''"
    and "c \<noteq> CHR ''X''" and "radix_digit 10 c \<noteq> None"
  using assms by (auto simp: is_digit_def is_space_def radix_digit_def)

lemma parseInt_string_decimal:
  assumes "s \<noteq> []" and "list_all is_digit s"
  shows "parseInt_string s = fl (of_nat (digits_value 10 s))"
proof -
  from assms(1) obtain c cs where s: "s = c # cs" by (cases s) auto
  from assms(2) have c: "is_digit c" and cs: "list_all is_digit cs" by (simp_all add: s)
  have d: "dropWhile is_space s = s" using is_digit_facts(1) [OF c] by (simp add: s)
  have t1: "take 1 s \<noteq> ''-''" "take 1 s \<noteq> ''+''"
    using is_digit_facts(2,3) [OF c] by (simp_all add: s)
  have t2: "take 2 s \<noteq> ''0x''" "take 2 s \<noteq> ''0X''"
  proof -
    show "take 2 s \<noteq> ''0x''"
    proof (cases cs)
      case Nil
      then show ?thesis by (simp add: s)
    next
      case (Cons b bs)
      with cs have "is_digit b" by simp
      from is_digit_facts(4) [OF this] show ?thesis by (simp add: s Cons numeral_2_eq_2)
    qed
    show "take 2 s \<noteq> ''0X''"
    proof (cases cs)
      case Nil
      then show ?thesis by (simp add: s)
    next
      case (Cons b bs)
      with cs have "is_digit b" by simp
      from is_digit_facts(5) [OF this] show ?thesis by (simp add: s Cons numeral_2_eq_2)
    qed
  qed
  have "\<forall>x\<in>set s. radix_digit 10 x \<noteq> None"
    using assms(2) is_digit_facts(6) by (auto simp: list_all_iff)
  then have tw: "takeWhile (\<lambda>c. radix_digit 10 c \<noteq> None) s = s"
    by (simp only: takeWhile_eq_all_conv)
  show ?thesis
    unfolding parseInt_string_def Let_def
    by (simp only: d t1 t2 tw assms(1) simp_thms if_False of_int_of_nat_eq)
qed

lemma parseInt_decimal:
  assumes "s \<noteq> []" and "list_all is_digit s" and "digits_value 10 s \<le> 2 ^ 53"
  shows "parseInt (JStr s) = Fin (of_nat (digits_value 10 s))"
  using parseInt_string_decimal [OF assms(1,2)] fl_nat_exact [OF assms(3)]
  by (simp add: parseInt_def)

text \<open>
  The double \<^verbatim>\<open>(vacant / total) * 100\<close> of two such counts is finite and below
  \<open>10 ^ 21\<close>.
\<close>

lemma rate_double_bounded:
  fixes v t :: nat
  assumes "v \<le> 2 ^ 53" and "0 < t"
  shows "\<exists>q. js_mul (js_div (Fin (of_nat v)) (Fin (of_nat t))) (Fin 100) = Fin q
             \<and> 0 \<le> q \<and> q < 10 ^ 21"
proof -
  have t1: "(1::rat) \<le> of_nat t" using assms(2) by simp
  have v0: "(0::rat) \<le> of_nat v" by simp
  have "(of_nat v :: rat) / of_nat t \<le> of_nat v / 1"
    using t1 v0 by (intro divide_left_mono) simp_all
  moreover have "(of_nat v :: rat) \<le> of_nat (2 ^ 53)" using assms(1) by (simp only: of_nat_le_iff)
  ultimately have x: "(of_nat v :: rat) / of_nat t \<le> 2 powi 53" by simp
  have x0: "(0::rat) \<le> of_nat v / of_nat t" by simp
  from fl_le_pow2 [OF x0 x] obtain p where p: "fl (of_nat v / of_nat t) = Fin p"
    and p0: "0 \<le> p" and p1: "p \<le> 2 powi 53" by auto
  have y: "p * 100 \<le> 2 powi 60" using p1 by simp
  have y0: "0 \<le> p * 100" using p0 by simp
  from fl_le_pow2 [OF y0 y] obtain q where q: "fl (p * 100) = Fin q"
    and q0: "0 \<le> q" and q1: "q \<le> 2 powi 60" by auto
  have "q < 10 ^ 21" using q1 by simp
  moreover have "js_mul (js_div (Fin (of_nat v)) (Fin (of_nat t))) (Fin 100) = Fin q"
    using assms(2) p q by simp
  ultimately show ?thesis using q0 by blast
qed

lemma num_or_Fin_zero: "num_or (Fin x) (Fin 0) = Fin x"
  by (simp add: num_or_def)

lemma fetchVacancyData_row_decimal:
  assumes "total_cell headers row = JStr s" and "vacant_cell headers row = JStr t"
    and "s \<noteq> []" and "t \<noteq> []" and "list_all is_digit s" and "list_all is_digit t"
    and "digits_value 10 s \<le> 2 ^ 53" and "digits_value 10 t \<le> 2 ^ 53"
  shows "totalHousing (fetchVacancyData_row headers row) = Fin (of_nat (digits_value 10 s))"
    and "vacant (fetchVacancyData_row headers row) = Fin (of_nat (digits_value 10 t))"
    and "digits_value 10 s = 0 \<longrightarrow> vacancyRate (fetchVacancyData_row headers row) = ''0.0''"
    and "0 < digits_value 10 s \<longrightarrow>
           (\<exists>q. js_mul (js_div (Fin (of_nat (digits_value 10 t))) (Fin (of_nat (digits_value 10 s))))
                       (Fin 100) = Fin q
                \<and> 0 \<le> q \<and> q < 10 ^ 21
                \<and> vacancyRate (fetchVacancyData_row headers row) = rounded_one_decimal q)"
proof -
  let ?r = "fetchVacancyData_row headers row"
  show T: "totalHousing ?r = Fin (of_nat (digits_value 10 s))"
    by (simp only: fetchVacancyData_row_totalHousing assms(1)
        parseInt_decimal [OF assms(3,5,7)] num_or_Fin_zero)
  show V: "vacant ?r = Fin (of_nat (digits_value 10 t))"
    by (simp only: fetchVacancyData_row_vacant assms(2)
        parseInt_decimal [OF assms(4,6,8)] num_or_Fin_zero)
  show "digits_value 10 s = 0 \<longrightarrow> vacancyRate ?r = ''0.0''"
    by (subst fetchVacancyData_row_vacancyRate) (simp add: T js_gt_def)
  show "0 < digits_value 10 s \<longrightarrow>
           (\<exists>q. js_mul (js_div (Fin (of_nat (digits_value 10 t))) (Fin (of_nat (digits_value 10 s))))
                       (Fin 100) = Fin q
                \<and> 0 \<le> q \<and> q < 10 ^ 21
                \<and> vacancyRate ?r = rounded_one_decimal q)"
  proof
    assume pos: "0 < digits_value 10 s"
    from rate_double_bounded [OF assms(8) pos] obtain q
      where q: "js_mul (js_div (Fin (of_nat (digits_value 10 t))) (Fin (of_nat (digits_value 10 s))))
                       (Fin 100) = Fin q"
        and q0: "0 \<le> q" and q1: "q < 10 ^ 21" by blast
    have g: "js_gt (totalHousing ?r) (Fin 0)" using pos by (simp add: T js_gt_def)
    have "\<bar>q\<bar> < 10 ^ 21" using q0 q1 by simp
    then have "toFixed (Fin q) 1 = rounded_one_decimal q" by (rule toFixed_one_decimal)
    moreover have "vacancyRate ?r
        = toFixed (js_mul (js_div (vacant ?r) (totalHousing ?r)) (Fin 100)) 1"
      using g by (subst fetchVacancyData_row_vacancyRate) (simp only: if_True)
    ultimately have "vacancyRate ?r = rounded_one_decimal q" by (simp only: T V q)
    with q q0 q1 show "\<exists>q. js_mul (js_div (Fin (of_nat (digits_value 10 t)))
                                 (Fin (of_nat (digits_value 10 s)))) (Fin 100) = Fin q
                \<and> 0 \<le> q \<and> q < 10 ^ 21
                \<and> vacancyRate ?r = rounded_one_decimal q" by blast
  qed
qed

lemma parseInt_12abc: "parseInt (JStr ''12abc'') = Fin 12"
  by (simp add: parseInt_def parseInt_string_def Let_def is_space_def radix_digit_def
      digits_value_def fl_numeral_exact)

lemma parseInt_0: "parseInt (JStr ''0'') = Fin 0"
  by (simp add: parseInt_def parseInt_string_def Let_def is_space_def radix_digit_def
      digits_value_def fl_def)

text \<open>
  C2, as the program has it.  For every row of the table the total and the vacant
  count are what \<^verbatim>\<open>parseInt\<close> reads at the start of the cells under the two
  variables, and zero when it reads no number there; in particular a count is zero
  when its column is missing from the header row or its cell is missing or \<^verbatim>\<open>null\<close>,
  and no count is not-a-number.  The vacancy rate is \<^verbatim>\<open>toFixed(1)\<close> of the double
  \<^verbatim>\<open>(vacant / total) * 100\<close> when the total is greater than zero, and the string
  \<^verbatim>\<open>0.0\<close> otherwise, in particular when the total is zero.  When that double is finite
  and below \<open>10 ^ 21\<close> in magnitude, the rate is the double rounded to one decimal place
  and written with one decimal digit.  When both cells are decimal integers up to
  \<open>2 ^ 53\<close>, the counts are these integers, and for a total greater than zero the
  double is finite, below \<open>10 ^ 21\<close>, and the rate is the double rounded to one decimal
  place.  The row function is total: no row makes it throw.
\<close>

theorem fetchVacancyData_row_counts_and_rate:
  "totalHousing (fetchVacancyData_row headers row)
     = num_or (parseInt (total_cell headers row)) (Fin 0)
   \<and> vacant (fetchVacancyData_row headers row)
     = num_or (parseInt (vacant_cell headers row)) (Fin 0)
   \<and> vacancyRate (fetchVacancyData_row headers row)
     = (if js_gt (num_or (parseInt (total_cell headers row)) (Fin 0)) (Fin 0)
        then toFixed (js_mul (js_div (num_or (parseInt (vacant_cell headers row)) (Fin 0))
                                     (num_or (parseInt (total_cell headers row)) (Fin 0)))
                             (Fin 100)) 1
        else ''0.0'')
   \<and> (parseInt (total_cell headers row) = NaN \<longrightarrow>
        totalHousing (fetchVacancyData_row headers row) = Fin 0)
   \<and> (parseInt (vacant_cell headers row) = NaN \<longrightarrow>
        vacant (fetchVacancyData_row headers row) = Fin 0)
   \<and> (JStr variables_totalHousing \<notin> set headers
        \<or> total_cell headers row \<in> {JUndefined, JNull} \<longrightarrow>
        totalHousing (fetchVacancyData_row headers row) = Fin 0)
   \<and> (JStr variables_vacant \<notin> set headers
        \<or> vacant_cell headers row \<in> {JUndefined, JNull} \<longrightarrow>
        vacant (fetchVacancyData_row headers row) = Fin 0)
   \<and> totalHousing (fetchVacancyData_row headers row) \<noteq> NaN
   \<and> vacant (fetchVacancyData_row headers row) \<noteq> NaN
   \<and> (\<not> js_gt (totalHousing (fetchVacancyData_row headers row)) (Fin 0) \<longrightarrow>
        vacancyRate (fetchVacancyData_row headers row) = ''0.0'')
   \<and> (totalHousing (fetchVacancyData_row headers row) = Fin 0 \<longrightarrow>
        vacancyRate (fetchVacancyData_row headers row) = ''0.0'')
   \<and> (\<forall>q. js_gt (totalHousing (fetchVacancyData_row headers row)) (Fin 0)
          \<and> js_mul (js_div (vacant (fetchVacancyData_row headers row))
                            (totalHousing (fetchVacancyData_row headers row)))
                    (Fin 100) = Fin q
          \<and> \<bar>q\<bar> < 10 ^ 21 \<longrightarrow>
          vacancyRate (fetchVacancyData_row headers row) = rounded_one_decimal q)
   \<and> (\<forall>s t. total_cell headers row = JStr s \<and> vacant_cell headers row = JStr t
          \<and> s \<noteq> [] \<and> t \<noteq> [] \<and> list_all is_digit s \<and> list_all is_digit t
          \<and> digits_value 10 s \<le> 2 ^ 53 \<and> digits_value 10 t \<le> 2 ^ 53 \<longrightarrow>
          totalHousing (fetchVacancyData_row headers row) = Fin (of_nat (digits_value 10 s))
          \<and> vacant (fetchVacancyData_row headers row) = Fin (of_nat (digits_value 10 t))
          \<and> (digits_value 10 s = 0 \<longrightarrow>
               vacancyRate (fetchVacancyData_row headers row) = ''0.0'')
          \<and> (0 < digits_value 10 s \<longrightarrow>
               (\<exists>q. js_mul (js_div (Fin (of_nat (digits_value 10 t)))
                                   (Fin (of_nat (digits_value 10 s)))) (Fin 100) = Fin q
                    \<and> 0 \<le> q \<and> q < 10 ^ 21
                    \<and> vacancyRate (fetchVacancyData_row headers row) = rounded_one_decimal q)))"
proof -
  let ?r = "fetchVacancyData_row headers row"
  let ?T = "num_or (parseInt (total_cell headers row)) (Fin 0)"
  let ?V = "num_or (parseInt (vacant_cell headers row)) (Fin 0)"
  have T: "totalHousing ?r = ?T" by (rule fetchVacancyData_row_totalHousing)
  have V: "vacant ?r = ?V" by (rule fetchVacancyData_row_vacant)
  have R: "vacancyRate ?r
     = (if js_gt ?T (Fin 0) then toFixed (js_mul (js_div ?V ?T) (Fin 100)) 1 else ''0.0'')"
    by (simp add: fetchVacancyData_row_def Let_def)
  have missing: "parseInt (at_index row (indexOf headers v)) = NaN"
    if "v \<notin> set headers \<or> at_index row (indexOf headers v) \<in> {JUndefined, JNull}" for v
  proof -
    from that have "at_index row (indexOf headers v) \<in> {JUndefined, JNull}"
      by (auto simp: indexOf_absent at_index_def)
    then show ?thesis by (auto simp: parseInt_undefined parseInt_null)
  qed
  have t: "parseInt (total_cell headers row) = NaN \<longrightarrow> totalHousing ?r = Fin 0"
    by (simp add: T num_or_def)
  have v: "parseInt (vacant_cell headers row) = NaN \<longrightarrow> vacant ?r = Fin 0"
    by (simp add: V num_or_def)
  have tm: "JStr variables_totalHousing \<notin> set headers
        \<or> total_cell headers row \<in> {JUndefined, JNull} \<longrightarrow> totalHousing ?r = Fin 0"
    using t missing [of "JStr variables_totalHousing"] by blast
  have vm: "JStr variables_vacant \<notin> set headers
        \<or> vacant_cell headers row \<in> {JUndefined, JNull} \<longrightarrow> vacant ?r = Fin 0"
    using v missing [of "JStr variables_vacant"] by blast
  have tn: "totalHousing ?r \<noteq> NaN"
    by (simp only: T num_or_not_NaN not_False_eq_True)
  have vn: "vacant ?r \<noteq> NaN"
    by (simp only: V num_or_not_NaN not_False_eq_True)
  have npos: "\<not> js_gt (totalHousing ?r) (Fin 0) \<longrightarrow> vacancyRate ?r = ''0.0''"
    by (subst fetchVacancyData_row_vacancyRate) simp
  have zero: "totalHousing ?r = Fin 0 \<longrightarrow> vacancyRate ?r = ''0.0''"
    using npos by (auto simp: js_gt_def)
  have round: "\<forall>q. js_gt (totalHousing ?r) (Fin 0)
          \<and> js_mul (js_div (vacant ?r) (totalHousing ?r)) (Fin 100) = Fin q
          \<and> \<bar>q\<bar> < 10 ^ 21 \<longrightarrow> vacancyRate ?r = rounded_one_decimal q"
  proof (intro allI impI)
    fix q
    assume a: "js_gt (totalHousing ?r) (Fin 0)
          \<and> js_mul (js_div (vacant ?r) (totalHousing ?r)) (Fin 100) = Fin q
          \<and> \<bar>q\<bar> < 10 ^ 21"
    then have "vacancyRate ?r
        = toFixed (js_mul (js_div (vacant ?r) (totalHousing ?r)) (Fin 100)) 1"
      by (subst fetchVacancyData_row_vacancyRate) (simp only: if_True)
    with a show "vacancyRate ?r = rounded_one_decimal q"
      by (simp only: toFixed_one_decimal)
  qed
  have dec: "\<forall>s t. total_cell headers row = JStr s \<and> vacant_cell headers row = JStr t
          \<and> s \<noteq> [] \<and> t \<noteq> [] \<and> list_all is_digit s \<and> list_all is_digit t
          \<and> digits_value 10 s \<le> 2 ^ 53 \<and> digits_value 10 t \<le> 2 ^ 53 \<longrightarrow>
          totalHousing ?r = Fin (of_nat (digits_value 10 s))
          \<and> vacant ?r = Fin (of_nat (digits_value 10 t))
          \<and> (digits_value 10 s = 0 \<longrightarrow> vacancyRate ?r = ''0.0'')
          \<and> (0 < digits_value 10 s \<longrightarrow>
               (\<exists>q. js_mul (js_div (Fin (of_nat (digits_value 10 t)))
                                   (Fin (of_nat (digits_value 10 s)))) (Fin 100) = Fin q
                    \<and> 0 \<le> q \<and> q < 10 ^ 21
                    \<and> vacancyRate ?r = rounded_one_decimal q))"
  proof (intro allI impI, elim conjE)
    fix s t
    assume a: "total_cell headers row = JStr s" "vacant_cell headers row = JStr t"
      "s \<noteq> []" "t \<noteq> []" "list_all is_digit s" "list_all is_digit t"
      "digits_value 10 s \<le> 2 ^ 53" "digits_value 10 t \<le> 2 ^ 53"
    from fetchVacancyData_row_decimal [OF a]
    show "totalHousing ?r = Fin (of_nat (digits_value 10 s))
          \<and> vacant ?r = Fin (of_nat (digits_value 10 t))
          \<and> (digits_value 10 s = 0 \<longrightarrow> vacancyRate ?r = ''0.0'')
          \<and> (0 < digits_value 10 s \<longrightarrow>
               (\<exists>q. js_mul (js_div (Fin (of_nat (digits_value 10 t)))
                                   (Fin (of_nat (digits_value 10 s)))) (Fin 100) = Fin q
                    \<and> 0 \<le> q \<and> q < 10 ^ 21
                    \<and> vacancyRate ?r = rounded_one_decimal q))"
      by (intro conjI)
  qed
  from T V R t v tm vm tn vn npos zero round dec show ?thesis by blast
qed

theorem fetchVacancyData_row_witness:
  "totalHousing (fetchVacancyData_row
      [JStr ''NAME'', JStr ''B25002_001E'', JStr ''B25002_003E'', JStr ''state'']
      [JStr ''California'', JStr ''1000'', JStr ''100'', JStr ''06'']) = Fin 1000
   \<and> vacant (fetchVacancyData_row
      [JStr ''NAME'', JStr ''B25002_001E'', JStr ''B25002_003E'', JStr ''state'']
      [JStr ''California'', JStr ''1000'', JStr ''100'', JStr ''06'']) = Fin 100
   \<and> vacancyRate (fetchVacancyData_row
      [JStr ''NAME'', JStr ''B25002_001E'', JStr ''B25002_003E'', JStr ''state'']
      [JStr ''California'', JStr ''1000'', JStr ''100'', JStr ''06'']) = rounded_one_decimal 10
   \<and> rounded_one_decimal 10 = ''10.0''
   \<and> vacancyRate (fetchVacancyData_row
         [JStr ''NAME'', JStr ''B25002_001E'', JStr ''B25002_003E'', JStr ''state'']
         [JStr ''Nowhere'', JStr ''0'', JNull, JStr ''99'']) = ''0.0''
   \<and> vacant (fetchVacancyData_row
         [JStr ''NAME'', JStr ''B25002_001E'', JStr ''B25002_003E'', JStr ''state'']
         [JStr ''Nowhere'', JStr ''0'', JNull, JStr ''99'']) = Fin 0
   \<and> totalHousing (fetchVacancyData_row
         [JStr ''NAME'', JStr ''B25002_003E'', JStr ''state'']
         [JStr ''Nowhere'', JStr ''7'', JStr ''99'']) = Fin 0
   \<and> totalHousing (fetchVacancyData_row
         [JStr ''NAME'', JStr ''B25002_001E'', JStr ''B25002_003E'', JStr ''state'']
         [JStr ''Somewhere'', JStr ''12abc'', JStr ''x'', JStr ''99'']) = Fin 12
   \<and> vacant (fetchVacancyData_row
         [JStr ''NAME'', JStr ''B25002_001E'', JStr ''B25002_003E'', JStr ''state'']
         [JStr ''Somewhere'', JStr ''12abc'', JStr ''x'', JStr ''99'']) = Fin 0
   \<and> totalHousing (fetchVacancyData_row
         [JStr ''NAME'', JStr ''B25002_001E'', JStr ''B25002_003E'', JStr ''state'']
         [JStr ''Elsewhere'', JStr ''n/a'', JStr ''5'', JStr ''99'']) = Fin 0
   \<and> vacancyRate (fetchVacancyData_row
         [JStr ''NAME'', JStr ''B25002_001E'', JStr ''B25002_003E'', JStr ''state'', JStr ''county'']
         [JStr ''Los Angeles County, California'', JStr ''80'', JStr ''23'', JStr ''06'',
          JStr ''037''])
       = rounded_one_decimal (8092405580431359 / 281474976710656)
   \<and> rounded_one_decimal (8092405580431359 / 281474976710656) = ''28.7''"
proof -
  let ?h5 = "[JStr ''NAME'', JStr ''B25002_001E'', JStr ''B25002_003E'', JStr ''state'',
              JStr ''county'']"
  let ?la = "[JStr ''Los Angeles County, California'', JStr ''80'', JStr ''23'', JStr ''06'',
              JStr ''037'']"
  let ?el = "[JStr ''Elsewhere'', JStr ''n/a'', JStr ''5'', JStr ''99'']"
  let ?h = "[JStr ''NAME'', JStr ''B25002_001E'', JStr ''B25002_003E'', JStr ''state'']"
  let ?ca = "[JStr ''California'', JStr ''1000'', JStr ''100'', JStr ''06'']"
  let ?no = "[JStr ''Nowhere'', JStr ''0'', JNull, JStr ''99'']"
  let ?so = "[JStr ''Somewhere'', JStr ''12abc'', JStr ''x'', JStr ''99'']"
  note ca = fetchVacancyData_row_counts_and_rate [where headers = ?h and row = ?ca]
  have cells: "total_cell ?h ?ca = JStr ''1000''" "vacant_cell ?h ?ca = JStr ''100''"
    by (simp_all add: at_index_def variables_totalHousing_def variables_vacant_def)
  have dv: "digits_value 10 ''1000'' = 1000" "digits_value 10 ''100'' = 100"
    by (simp_all add: digits_value_def radix_digit_def)
  have dig: "list_all is_digit ''1000''" "list_all is_digit ''100''"
    by (simp_all add: is_digit_def)
  have hyp: "total_cell ?h ?ca = JStr ''1000'' \<and> vacant_cell ?h ?ca = JStr ''100''
      \<and> ''1000'' \<noteq> [] \<and> ''100'' \<noteq> [] \<and> list_all is_digit ''1000'' \<and> list_all is_digit ''100''
      \<and> digits_value 10 ''1000'' \<le> 2 ^ 53 \<and> digits_value 10 ''100'' \<le> 2 ^ 53"
    using cells dig by (simp add: dv)
  from ca hyp
  have d: "totalHousing (fetchVacancyData_row ?h ?ca) = Fin (of_nat (digits_value 10 ''1000''))
      \<and> vacant (fetchVacancyData_row ?h ?ca) = Fin (of_nat (digits_value 10 ''100''))
      \<and> (0 < digits_value 10 ''1000'' \<longrightarrow>
           (\<exists>q. js_mul (js_div (Fin (of_nat (digits_value 10 ''100'')))
                               (Fin (of_nat (digits_value 10 ''1000'')))) (Fin 100) = Fin q
                \<and> 0 \<le> q \<and> q < 10 ^ 21
                \<and> vacancyRate (fetchVacancyData_row ?h ?ca) = rounded_one_decimal q))"
    by blast
  from d have 1: "totalHousing (fetchVacancyData_row ?h ?ca) = Fin 1000"
    and 2: "vacant (fetchVacancyData_row ?h ?ca) = Fin 100"
    by (simp_all add: dv)
  have m: "js_mul (js_div (Fin (of_nat (digits_value 10 ''100'')))
                          (Fin (of_nat (digits_value 10 ''1000'')))) (Fin 100) = Fin 10"
    by (simp add: dv fl_tenth fl_ten)
  from d m have 3: "vacancyRate (fetchVacancyData_row ?h ?ca) = rounded_one_decimal 10"
    by (auto simp: dv)
  have 4: "rounded_one_decimal 10 = ''10.0''"
    using 3 by (simp add: state_row_eval)
  note no = fetchVacancyData_row_counts_and_rate [where headers = ?h and row = ?no]
  have t0: "totalHousing (fetchVacancyData_row ?h ?no) = Fin 0"
    by (simp add: fetchVacancyData_row_totalHousing at_index_def variables_totalHousing_def
        parseInt_0 num_or_def)
  from no t0 have 5: "vacancyRate (fetchVacancyData_row ?h ?no) = ''0.0''" by blast
  have "vacant_cell ?h ?no \<in> {JUndefined, JNull}"
    by (simp add: at_index_def variables_vacant_def)
  with no have 6: "vacant (fetchVacancyData_row ?h ?no) = Fin 0" by blast
  have "JStr variables_totalHousing \<notin> set [JStr ''NAME'', JStr ''B25002_003E'', JStr ''state'']"
    by (simp add: variables_totalHousing_def)
  with fetchVacancyData_row_counts_and_rate
         [where headers = "[JStr ''NAME'', JStr ''B25002_003E'', JStr ''state'']"
            and row = "[JStr ''Nowhere'', JStr ''7'', JStr ''99'']"]
  have 7: "totalHousing (fetchVacancyData_row
             [JStr ''NAME'', JStr ''B25002_003E'', JStr ''state'']
             [JStr ''Nowhere'', JStr ''7'', JStr ''99'']) = Fin 0"
    by blast
  note so = fetchVacancyData_row_counts_and_rate [where headers = ?h and row = ?so]
  from so have "totalHousing (fetchVacancyData_row ?h ?so)
      = num_or (parseInt (total_cell ?h ?so)) (Fin 0)" by blast
  then have 8: "totalHousing (fetchVacancyData_row ?h ?so) = Fin 12"
    by (simp add: at_index_def variables_totalHousing_def parseInt_12abc num_or_def)
  have "parseInt (vacant_cell ?h ?so) = NaN"
    by (simp add: at_index_def variables_vacant_def parseInt_def parseInt_string_def Let_def
        is_space_def radix_digit_def)
  with so have 9: "vacant (fetchVacancyData_row ?h ?so) = Fin 0" by blast
  have "parseInt (total_cell ?h ?el) = NaN"
    by (simp add: at_index_def variables_totalHousing_def parseInt_def parseInt_string_def
        Let_def is_space_def radix_digit_def)
  with fetchVacancyData_row_counts_and_rate [where headers = ?h and row = ?el]
  have 10: "totalHousing (fetchVacancyData_row ?h ?el) = Fin 0" by blast
  have la: "js_gt (totalHousing (fetchVacancyData_row ?h5 ?la)) (Fin 0)
      \<and> js_mul (js_div (vacant (fetchVacancyData_row ?h5 ?la))
                        (totalHousing (fetchVacancyData_row ?h5 ?la))) (Fin 100)
          = Fin (8092405580431359 / 281474976710656)
      \<and> \<bar>8092405580431359 / 281474976710656 :: rat\<bar> < 10 ^ 21"
    by (simp add: county_row_eval js_gt_def fl_23_80 fl_23_80_100)
  with fetchVacancyData_row_counts_and_rate [where headers = ?h5 and row = ?la]
  have 11: "vacancyRate (fetchVacancyData_row ?h5 ?la)
      = rounded_one_decimal (8092405580431359 / 281474976710656)" by blast
  then have 12: "rounded_one_decimal (8092405580431359 / 281474976710656) = ''28.7''"
    by (simp add: county_row_eval)
  from 1 2 3 4 5 6 7 8 9 10 11 12 show ?thesis by blast
qed

text \<open>
  The claim as it was stated fails.  With 23 vacant units of 80 the exact quotient is
  28.75 percent, which rounds to \<^verbatim>\<open>28.8\<close>; the double \<^verbatim>\<open>(23 / 80) * 100\<close> lies below
  28.75 and the rate of the row is \<^verbatim>\<open>28.7\<close>.  And a count that is not a number but
  starts with digits, such as \<^verbatim>\<open>12abc\<close>, is not zero: it is 12.
\<close>

theorem fetchVacancyData_row_rate_counterexample:
  "fetchVacancyData_row
     [JStr ''NAME'', JStr ''B25002_001E'', JStr ''B25002_003E'', JStr ''state'', JStr ''county'']
     [JStr ''Los Angeles County, California'', JStr ''80'', JStr ''23'', JStr ''06'', JStr ''037'']
   = \<lparr>name = JStr ''Los Angeles County, California'', geoid = JStr ''037'',
      totalHousing = Fin 80, vacant = Fin 23, vacancyRate = ''28.7''\<rparr>
   \<and> rounded_one_decimal (23 / 80 * 100) = ''28.8''
   \<and> totalHousing (fetchVacancyData_row
        [JStr ''NAME'', JStr ''B25002_001E'', JStr ''B25002_003E'', JStr ''state'', JStr ''county'']
        [JStr ''Somewhere'', JStr ''12abc'', JStr ''3'', JStr ''06'', JStr ''001'']) = Fin 12"
proof -
  have "rounded_one_decimal (23 / 80 * 100) = ''28.8''"
    by (simp add: rounded_one_decimal_def Let_def digit_char_def)
  moreover have "totalHousing (fetchVacancyData_row
        [JStr ''NAME'', JStr ''B25002_001E'', JStr ''B25002_003E'', JStr ''state'', JStr ''county'']
        [JStr ''Somewhere'', JStr ''12abc'', JStr ''3'', JStr ''06'', JStr ''001'']) = Fin 12"
    by (simp add: fetchVacancyData_row_totalHousing at_index_def variables_totalHousing_def
        parseInt_12abc num_or_def)
  ultimately show ?thesis using county_row_eval by blast
qed
section \<open>A county cycle whose geometry has no features\<close>

lemma county_try_no_features:
  assumes "geo_net net (county_geo_request sid cid) = Response gok gst (Json d)"
    and "features d = Some []"
  shows "\<exists>e. county_try net sid cid = Inl e"
  using assms
  by (auto simp: county_try_def split: response.split json.split list.split)

text \<open>
  The other two kinds of cycle do not look at the number of features: \<^verbatim>\<open>updateMap\<close>
  asks only for a document with a features field, \<^verbatim>\<open>handleGeoLevelChange\<close> for
  nothing.  A document without features that reaches them is committed.
\<close>

lemma other_cycles_commit_no_features:
  assumes "fetch_both net level sid cid = Inr (Some d, vd)" and "features d = Some []"
  shows "updateMap_settle net level sid cid v
           = v\<lparr>geoJsonData := Some d, vacancyData := vd, loading := False\<rparr>"
    and "handleGeoLevelChange_settle net level sid cid v
           = v\<lparr>geoJsonData := Some d, vacancyData := vd, loading := False\<rparr>"
  using assms by (simp_all add: updateMap_settle_def handleGeoLevelChange_settle_def)

text \<open>
  C3, as the program has it, for the cycle of \<^verbatim>\<open>handleCountySelect\<close>, the handler of
  the county selection.  When the geometry of such a cycle arrives with zero features
  the cycle fails, and the \<^verbatim>\<open>catch\<close> block of the handler clears the view model: the
  geometry on display, the statistics and the county summary are reset.  The failure
  is the one for unavailable geometry when both responses are successful and the
  statistics table has its header row and a data row.
\<close>

theorem handleCountySelect_no_features_clears:
  assumes "geo_net net (county_geo_request sid cid) = Response gok gst (Json d)"
    and "features d = Some []"
  shows "(\<exists>e. handleCountySelect_settle net sid cid v
               = v\<lparr>error := Some e, countyStats := None, geoJsonData := None,
                    vacancyData := [], loading := False\<rparr>)
       \<and> (gok \<and> (\<exists>sst headers countyRow more.
               stats_net net (county_stats_request sid cid)
                 = Response True sst (Json (headers # countyRow # more))) \<longrightarrow>
            handleCountySelect_settle net sid cid v
               = v\<lparr>error := Some GeometryUnavailable, countyStats := None, geoJsonData := None,
                    vacancyData := [], loading := False\<rparr>)"
proof (intro conjI impI)
  from county_try_no_features [OF assms] obtain e where "county_try net sid cid = Inl e" ..
  then have "handleCountySelect_settle net sid cid v
               = v\<lparr>error := Some (prefixed ''Failed to load county data: '' e),
                    countyStats := None, geoJsonData := None,
                    vacancyData := [], loading := False\<rparr>"
    by (simp add: handleCountySelect_settle_def)
  then show "\<exists>e. handleCountySelect_settle net sid cid v
               = v\<lparr>error := Some e, countyStats := None, geoJsonData := None,
                    vacancyData := [], loading := False\<rparr>"
    by blast
next
  assume "gok \<and> (\<exists>sst headers countyRow more.
               stats_net net (county_stats_request sid cid)
                 = Response True sst (Json (headers # countyRow # more)))"
  then obtain sst headers countyRow more where gok: gok
    and s: "stats_net net (county_stats_request sid cid)
              = Response True sst (Json (headers # countyRow # more))"
    by blast
  have "county_try net sid cid = Inl (Text ''Invalid geometry data received'')"
    using assms gok s by (simp add: county_try_def)
  then show "handleCountySelect_settle net sid cid v
               = v\<lparr>error := Some GeometryUnavailable, countyStats := None, geoJsonData := None,
                    vacancyData := [], loading := False\<rparr>"
    by (simp add: handleCountySelect_settle_def GeometryUnavailable_def)
qed

theorem handleCountySelect_no_features_witness:
  "handleCountySelect_settle no_features_net ''06'' ''037'' (ui state_ready)
     = (ui state_ready)\<lparr>error := Some GeometryUnavailable, countyStats := None,
          geoJsonData := None, vacancyData := [], loading := False\<rparr>"
proof -
  have g: "geo_net no_features_net (county_geo_request ''06'' ''037'')
             = Response True 200 (Json no_features_doc)"
    by (simp add: no_features_net_def)
  have f: "features no_features_doc = Some []"
    by (simp add: no_features_doc_def)
  have s: "\<exists>sst headers countyRow more.
             stats_net no_features_net (county_stats_request ''06'' ''037'')
               = Response True sst (Json (headers # countyRow # more))"
    by (simp add: no_features_net_def county_table_def)
  from handleCountySelect_no_features_clears [OF g f, of "ui state_ready"] s
  show ?thesis by blast
qed

text \<open>
  The claim as it was stated fails: California and its statistics are on display, the
  user selects the county 037, and the geometry of the county comes back without
  features.  After the failure nothing is on display any more.
\<close>

theorem handleCountySelect_no_features_counterexample:
  "geoJsonData (ui state_ready) = Some states_doc
   \<and> run [SelectCounty ''037'', Settle 0 no_features_net] state_ready
     = Some \<lparr>ui = \<lparr>selectedState = ''06'', selectedCounty = ''037'', geoLevel = ''county'',
                    geoJsonData = None, vacancyData = [], loading = False,
                    error = Some GeometryUnavailable, countyStats = None\<rparr>,
             pending = [UpdateMap ''county'' ''06'' ''037'']\<rparr>"
  by (simp add: state_ready_def initial_view_def handleCountySelect_start_def
      after_handler_def selection_def updateMap_start_def padStart_def
      handleCountySelect_settle_def county_try_def no_features_net_def no_features_doc_def
      county_table_def GeometryUnavailable_def)

section \<open>Changing the geography level\<close>

text \<open>
  C4, as the program has it.  While no county is selected, changing the level to
  \<^verbatim>\<open>tract\<close> fails with the message of the unmet precondition: the level stays as it
  was and no cycle is started, neither by the handler nor by the effect.  When a
  county is selected, every change sets the level and starts a cycle of the handler
  for the new level with the selected state and county.
\<close>

theorem handleGeoLevelChange_precondition:
  assumes "\<not> loading (ui c)"
  shows "(newLevel = ''tract'' \<and> selectedCounty (ui c) = [] \<longrightarrow>
            step (SelectGeoLevel newLevel) c
              = Some (c\<lparr>ui := (ui c)\<lparr>error := Some PreconditionNotMet\<rparr>\<rparr>))
       \<and> (selectedCounty (ui c) \<noteq> [] \<longrightarrow>
            (\<exists>c'. step (SelectGeoLevel newLevel) c = Some c'
                \<and> geoLevel (ui c') = newLevel
                \<and> (\<exists>effect. pending c' = pending c
                       @ GeoLevelChange newLevel (selectedState (ui c)) (selectedCounty (ui c))
                       # effect)))"
proof (intro conjI impI)
  assume a: "newLevel = ''tract'' \<and> selectedCounty (ui c) = []"
  then show "step (SelectGeoLevel newLevel) c
      = Some (c\<lparr>ui := (ui c)\<lparr>error := Some PreconditionNotMet\<rparr>\<rparr>)"
    using assms
    by (simp add: handleGeoLevelChange_start_def after_handler_def selection_def
        PreconditionNotMet_def)
next
  assume a: "selectedCounty (ui c) \<noteq> []"
  show "\<exists>c'. step (SelectGeoLevel newLevel) c = Some c'
      \<and> geoLevel (ui c') = newLevel
      \<and> (\<exists>effect. pending c' = pending c
             @ GeoLevelChange newLevel (selectedState (ui c)) (selectedCounty (ui c)) # effect)"
    using assms a
    by (simp add: handleGeoLevelChange_start_def after_handler_def selection_def
        updateMap_start_def Let_def split: prod.split)
qed

theorem handleGeoLevelChange_witness:
  "step (SelectGeoLevel ''tract'') state_ready
     = Some (state_ready\<lparr>ui := (ui state_ready)\<lparr>error := Some PreconditionNotMet\<rparr>\<rparr>)
   \<and> geoLevel (ui state_ready) = ''state''
   \<and> selectedCounty (ui state_ready) = []
   \<and> step (SelectGeoLevel ''tract'') county_ready
     = Some \<lparr>ui = (ui county_ready)\<lparr>geoLevel := ''tract'', loading := True\<rparr>,
             pending = [GeoLevelChange ''tract'' ''06'' ''037'', UpdateMap ''tract'' ''06'' ''037'']\<rparr>"
  using handleGeoLevelChange_precondition [of state_ready "''tract''"]
    handleGeoLevelChange_precondition [of county_ready "''tract''"]
  by (simp add: state_ready_def county_ready_def initial_view_def
      handleGeoLevelChange_start_def after_handler_def selection_def updateMap_start_def)

text \<open>
  The claim as it was stated fails for the level \<^verbatim>\<open>block\<close>: with no county selected the
  level becomes \<^verbatim>\<open>block\<close> and two cycles start, one of the handler and one of the effect.
\<close>

theorem handleGeoLevelChange_block_counterexample:
  "step (SelectGeoLevel ''block'') state_ready
     = Some \<lparr>ui = (ui state_ready)\<lparr>geoLevel := ''block'', loading := True\<rparr>,
             pending = [GeoLevelChange ''block'' ''06'' [], UpdateMap ''block'' ''06'' []]\<rparr>"
  by (simp add: state_ready_def initial_view_def handleGeoLevelChange_start_def
      after_handler_def selection_def updateMap_start_def)

section \<open>The geometry fetcher rejects the block level\<close>

lemma fetchGeoJSON_unrecognized:
  "level \<noteq> ''state'' \<Longrightarrow> level \<noteq> ''county'' \<Longrightarrow> level \<noteq> ''tract''
   \<Longrightarrow> fetchGeoJSON net level stateId countyId = Inl UnsupportedLevel"
  by (simp add: fetchGeoJSON_def UnsupportedLevel_def)

lemma prefixed_Text_iff: "prefixed p m = Text s \<longleftrightarrow> (\<exists>t. m = Text t \<and> s = p @ t)"
  by (cases m) auto

lemma query_service_not_level:
  "query_service net rq \<noteq> Inl (Text ''Invalid geography level'')"
  by (simp add: query_service_def split: response.split json.split)

lemma fetchGeoJSON_recognized:
  assumes "level = ''state'' \<or> level = ''county'' \<or> level = ''tract''"
  shows "fetchGeoJSON net level stateId countyId \<noteq> Inl UnsupportedLevel"
proof -
  have q: "(case query_service net rq of Inl err \<Rightarrow> Inl (prefixed ''Failed to fetch GeoJSON: '' err)
            | Inr data \<Rightarrow> Inr data) \<noteq> Inl UnsupportedLevel" for rq
    using query_service_not_level [of net rq]
    by (auto simp: UnsupportedLevel_def prefixed_Text_iff split: sum.split)
  have s: "state_filter stateId fs \<noteq> Inl (Text ''Invalid geography level'')" for fs
    by (simp add: state_filter_def)
  from assms show ?thesis
  proof (elim disjE)
    assume "level = ''state''"
    then show ?thesis
      using s
      by (auto simp: fetchGeoJSON_def UnsupportedLevel_def prefixed_Text_iff
               split: response.split json.split option.split sum.split)
  next
    assume "level = ''county''"
    then show ?thesis using q by (simp add: fetchGeoJSON_def)
  next
    assume "level = ''tract''"
    then show ?thesis using q by (simp add: fetchGeoJSON_def)
  qed
qed

text \<open>
  C5.  For the level \<^verbatim>\<open>block\<close>, one of the four levels of the specification and an option
  of the level control, \<^verbatim>\<open>fetchGeoJSON\<close> of \<^verbatim>\<open>App.jsx\<close> has no case: whatever the network
  answers, the fetch fails with the error for an unsupported level.
\<close>

theorem fetchGeoJSON_block_unsupported:
  "fetchGeoJSON net ''block'' stateId countyId = Inl UnsupportedLevel"
  by (simp add: fetchGeoJSON_def UnsupportedLevel_def)

section \<open>The geographic id of an attribute row\<close>

lemma fetchVacancyData_row_geoid:
  "geoid (fetchVacancyData_row headers row) = at_index row (int (length row) - 1)"
  by (simp add: fetchVacancyData_row_def Let_def)

text \<open>
  C6.  The geographic id of a row is its last column as the service sent it: for the
  last column \<^verbatim>\<open>6\<close> the stored id is \<^verbatim>\<open>6\<close>, not the normalised id \<^verbatim>\<open>06\<close>.
\<close>

theorem fetchVacancyData_row_geoid_raw:
  "geoid (fetchVacancyData_row
            [JStr ''NAME'', JStr ''B25002_001E'', JStr ''B25002_003E'', JStr ''state'']
            [JStr ''California'', JStr ''1000'', JStr ''100'', JStr ''6'']) = JStr ''6''
   \<and> JStr ''6'' \<noteq> JStr (normalizeStateId ''6'')"
  by (simp add: fetchVacancyData_row_def Let_def at_index_def normalizeStateId_def padStart_def)

section \<open>The join of a feature with the statistics\<close>






section \<open>The ranked table\<close>

lemma mset_insert_by: "mset (insert_by cmp x ys) = add_mset x (mset ys)"
  by (induction ys) simp_all

lemma mset_js_sort: "mset (js_sort cmp xs) = mset xs"
  by (induction xs) (simp_all add: js_sort_def mset_insert_by)

lemma set_insert_by: "set (insert_by cmp x ys) = insert x (set ys)"
  using mset_insert_by [of cmp x ys, THEN arg_cong, of set_mset] by simp

lemma set_js_sort: "set (js_sort cmp xs) = set xs"
  using mset_js_sort [of cmp xs, THEN arg_cong, of set_mset] by simp

lemma js_sort_Cons: "js_sort cmp (x # xs) = insert_by cmp x (js_sort cmp xs)"
  by (simp add: js_sort_def)

text \<open>An element never moves behind one with the same key.\<close>

lemma filter_insert_by:
  assumes "\<And>a b. k a = k b \<Longrightarrow> \<not> js_gt (cmp a b) (Fin 0)"
  shows "filter (\<lambda>y. k y = r) (insert_by cmp x ys)
           = (if k x = r then x # filter (\<lambda>y. k y = r) ys else filter (\<lambda>y. k y = r) ys)"
proof (induction ys)
  case Nil
  show ?case by simp
next
  case (Cons y ys)
  show ?case
  proof (cases "js_gt (cmp x y) (Fin 0)")
    case True
    with assms [of x y] have "k x \<noteq> k y" by blast
    with True Cons.IH show ?thesis by auto
  next
    case False
    then show ?thesis by simp
  qed
qed

lemma filter_js_sort:
  assumes "\<And>a b. k a = k b \<Longrightarrow> \<not> js_gt (cmp a b) (Fin 0)"
  shows "filter (\<lambda>y. k y = r) (js_sort cmp xs) = filter (\<lambda>y. k y = r) xs"
proof (induction xs)
  case Nil
  show ?case by (simp add: js_sort_def)
next
  case (Cons x xs)
  have "filter (\<lambda>y. k y = r) (insert_by cmp x (js_sort cmp xs))
          = (if k x = r then x # filter (\<lambda>y. k y = r) (js_sort cmp xs)
             else filter (\<lambda>y. k y = r) (js_sort cmp xs))"
    by (rule filter_insert_by) (rule assms)
  then show ?case by (simp add: js_sort_Cons Cons.IH)
qed

lemma js_ge_total: "a \<noteq> NaN \<Longrightarrow> b \<noteq> NaN \<Longrightarrow> \<not> js_lt a b \<Longrightarrow> js_ge a b"
  by (cases a; cases b) (auto simp: js_ge_def)

lemma js_lt_imp_ge: "js_lt a b \<Longrightarrow> js_ge b a"
  by (simp add: js_ge_def)

lemma js_ge_trans: "js_ge a b \<Longrightarrow> js_ge b c \<Longrightarrow> js_ge a c"
  by (cases a; cases b; cases c) (auto simp: js_ge_def)

lemma js_sub_self_not_positive: "\<not> js_gt (js_sub a a) (Fin 0)"
  by (cases a) (simp_all add: js_gt_def fl_def)

lemma by_rate_desc_positive:
  assumes "parseFloat (vacancyRate a) \<noteq> NaN" and "parseFloat (vacancyRate b) \<noteq> NaN"
  shows "js_gt (by_rate_desc a b) (Fin 0)
           = js_lt (parseFloat (vacancyRate a)) (parseFloat (vacancyRate b))"
  unfolding by_rate_desc_def
  using assms by (intro js_sub_sign is_double_parseFloat)

lemma by_rate_desc_tie:
  "parseFloat (vacancyRate a) = parseFloat (vacancyRate b)
   \<Longrightarrow> \<not> js_gt (by_rate_desc a b) (Fin 0)"
  by (simp add: by_rate_desc_def js_sub_self_not_positive)

lemma sorted_insert_by_rate:
  assumes "parseFloat (vacancyRate x) \<noteq> NaN"
    and "\<forall>y \<in> set ys. parseFloat (vacancyRate y) \<noteq> NaN"
    and "sorted_wrt (\<lambda>a b. js_ge (parseFloat (vacancyRate a)) (parseFloat (vacancyRate b))) ys"
  shows "sorted_wrt (\<lambda>a b. js_ge (parseFloat (vacancyRate a)) (parseFloat (vacancyRate b)))
           (insert_by by_rate_desc x ys)"
  using assms(2,3)
proof (induction ys)
  case Nil
  show ?case by simp
next
  case (Cons y ys)
  have ny: "parseFloat (vacancyRate y) \<noteq> NaN" using Cons.prems(1) by simp
  note sign = by_rate_desc_positive [OF assms(1) ny]
  show ?case
  proof (cases "js_lt (parseFloat (vacancyRate x)) (parseFloat (vacancyRate y))")
    case True
    then have "js_ge (parseFloat (vacancyRate y)) (parseFloat (vacancyRate x))"
      by (rule js_lt_imp_ge)
    moreover have "sorted_wrt (\<lambda>a b. js_ge (parseFloat (vacancyRate a)) (parseFloat (vacancyRate b)))
           (insert_by by_rate_desc x ys)"
      using Cons.IH Cons.prems by simp
    ultimately show ?thesis
      using True sign Cons.prems(2) by (simp add: set_insert_by)
  next
    case False
    with assms(1) ny have xy: "js_ge (parseFloat (vacancyRate x)) (parseFloat (vacancyRate y))"
      by (intro js_ge_total)
    have "\<forall>z \<in> set ys. js_ge (parseFloat (vacancyRate x)) (parseFloat (vacancyRate z))"
      using Cons.prems(2) xy by (auto intro: js_ge_trans)
    with False sign xy Cons.prems(2) show ?thesis by simp
  qed
qed

lemma sorted_js_sort_by_rate:
  assumes "\<forall>d \<in> set vd. parseFloat (vacancyRate d) \<noteq> NaN"
  shows "sorted_wrt (\<lambda>a b. js_ge (parseFloat (vacancyRate a)) (parseFloat (vacancyRate b)))
           (js_sort by_rate_desc vd)"
  using assms
proof (induction vd)
  case Nil
  show ?case by (simp add: js_sort_def)
next
  case (Cons x xs)
  then show ?case
    unfolding js_sort_Cons
    by (intro sorted_insert_by_rate) (simp_all add: set_js_sort)
qed

text \<open>
  C8.  The rows of the table are the first ten entries of the statistics sorted by
  \<^verbatim>\<open>Array.prototype.sort\<close> with the comparison of the rates: a rearrangement of the
  statistics which, when every rate is a number, is in descending order of the rate and
  keeps the entries of equal rate in the order they had.
\<close>

theorem table_rows_sorted_stable:
  "table_rows vd = take 10 (js_sort by_rate_desc vd)
   \<and> mset (js_sort by_rate_desc vd) = mset vd
   \<and> ((\<forall>d \<in> set vd. parseFloat (vacancyRate d) \<noteq> NaN) \<longrightarrow>
        sorted_wrt (\<lambda>a b. js_ge (parseFloat (vacancyRate a)) (parseFloat (vacancyRate b)))
          (js_sort by_rate_desc vd)
        \<and> (\<forall>r. filter (\<lambda>d. parseFloat (vacancyRate d) = r) (js_sort by_rate_desc vd)
                 = filter (\<lambda>d. parseFloat (vacancyRate d) = r) vd))"
proof (intro conjI impI allI)
  show "table_rows vd = take 10 (js_sort by_rate_desc vd)" by (simp add: table_rows_def)
  show "mset (js_sort by_rate_desc vd) = mset vd" by (rule mset_js_sort)
next
  assume "\<forall>d \<in> set vd. parseFloat (vacancyRate d) \<noteq> NaN"
  then show "sorted_wrt (\<lambda>a b. js_ge (parseFloat (vacancyRate a)) (parseFloat (vacancyRate b)))
          (js_sort by_rate_desc vd)"
    by (rule sorted_js_sort_by_rate)
next
  fix r
  show "filter (\<lambda>d. parseFloat (vacancyRate d) = r) (js_sort by_rate_desc vd)
          = filter (\<lambda>d. parseFloat (vacancyRate d) = r) vd"
    by (rule filter_js_sort) (rule by_rate_desc_tie)
qed

theorem table_rows_witness:
  "table_rows tied_stats = [tied_stats ! 1, tied_stats ! 0, tied_stats ! 2]
   \<and> sorted_wrt (\<lambda>a b. js_ge (parseFloat (vacancyRate a)) (parseFloat (vacancyRate b)))
         (js_sort by_rate_desc tied_stats)
   \<and> map name (filter (\<lambda>d. parseFloat (vacancyRate d) = Fin 10) (js_sort by_rate_desc tied_stats))
       = [JStr ''Tract 1'', JStr ''Tract 3'']"
proof -
  have n: "\<forall>d \<in> set tied_stats. parseFloat (vacancyRate d) \<noteq> NaN"
    by (simp add: tied_stats_def parseFloat_10_0 parseFloat_28_7)
  have s: "js_sort by_rate_desc tied_stats = [tied_stats ! 1, tied_stats ! 0, tied_stats ! 2]"
    by (simp add: tied_stats_def js_sort_def by_rate_desc_positive parseFloat_10_0
        parseFloat_28_7)
  from table_rows_sorted_stable [of tied_stats] n s
  show ?thesis
    by (simp add: tied_stats_def parseFloat_10_0 parseFloat_28_7)
qed

section \<open>The identifier normaliser\<close>

lemma padStart_zero: "padStart s n ''0'' = replicate (n - length s) CHR ''0'' @ s"
proof (cases "n \<le> length s")
  case True
  then show ?thesis by (simp add: padStart_def)
next
  case False
  have "concat (replicate k ''0'') = replicate k CHR ''0''" for k :: nat
    by (induction k) simp_all
  with False show ?thesis by (simp add: padStart_def)
qed

lemma length_concat_replicate_ge: "f \<noteq> [] \<Longrightarrow> k \<le> length (concat (replicate k f))"
proof (induction k)
  case 0
  then show ?case by simp
next
  case (Suc k)
  then have "1 \<le> length f" by (cases f) simp_all
  with Suc.IH [OF Suc.prems] show ?case by simp
qed

lemma padStart_length: "fill \<noteq> [] \<Longrightarrow> n \<le> length (padStart s n fill)"
  using length_concat_replicate_ge [of fill "n - length s"]
  by (simp add: padStart_def)

lemma padStart_idem: "padStart (padStart s n f) n f = padStart s n f"
proof (cases "f = []")
  case True
  then show ?thesis by (simp add: padStart_def)
next
  case False
  then have "n \<le> length (padStart s n f)" by (rule padStart_length)
  then show ?thesis by (subst padStart_def) simp
qed

text \<open>
  C9.  A raw state id of one or two decimal digits is normalised to a string of exactly
  two decimal digits, the raw id with zeros in front, and normalising the result again
  changes nothing.
\<close>

theorem normalizeStateId_two_digits_idempotent:
  assumes "1 \<le> length raw" and "length raw \<le> 2" and "\<forall>c \<in> set raw. is_digit c"
  shows "length (normalizeStateId raw) = 2
       \<and> (\<forall>c \<in> set (normalizeStateId raw). is_digit c)
       \<and> normalizeStateId raw = replicate (2 - length raw) CHR ''0'' @ raw
       \<and> normalizeStateId (normalizeStateId raw) = normalizeStateId raw"
proof -
  have shape: "normalizeStateId raw = replicate (2 - length raw) CHR ''0'' @ raw"
    by (simp add: normalizeStateId_def padStart_zero)
  have len: "length (normalizeStateId raw) = 2"
    using assms(1,2) by (simp add: shape)
  have z: "is_digit CHR ''0''" by (simp add: is_digit_def)
  have digs: "\<forall>c \<in> set (normalizeStateId raw). is_digit c"
    unfolding shape using assms(3) z by auto
  have idem: "normalizeStateId (normalizeStateId raw) = normalizeStateId raw"
    by (simp add: normalizeStateId_def padStart_idem)
  from len digs shape idem show ?thesis by blast
qed

theorem normalizeStateId_witness:
  "is_digit CHR ''6'' \<and> length (normalizeStateId ''6'') = 2
   \<and> normalizeStateId ''6'' = ''06''
   \<and> normalizeStateId (normalizeStateId ''6'') = normalizeStateId ''6''"
proof -
  have d: "\<forall>c \<in> set ''6''. is_digit c" by (simp add: is_digit_def)
  from d normalizeStateId_two_digits_idempotent [of "''6''", OF _ _ d]
  show ?thesis by (simp add: normalizeStateId_def padStart_def is_digit_def)
qed

section \<open>The conversion of the query service's dialect\<close>

lemma map_throwing_total:
  "(\<forall>x \<in> set xs. f x = Inr (g x)) \<Longrightarrow> map_throwing f xs = Inr (map g xs)"
  by (induction xs) simp_all

lemma js_or_text:
  "js_toString (js_or v (JStr [])) = (case v of JStr s \<Rightarrow> s | _ \<Rightarrow> [])"
  by (cases v) (simp_all add: js_or_def)

lemma esriToGeoJSON_feature_ok:
  assumes "geometry f = Some g" and "attributes f = Some a"
  shows "esriToGeoJSON_feature f =
     Inr \<lparr>ftype = JStr ''Feature'',
          geometry = Some \<lparr>gtype = JStr ''Polygon'', rings = None,
            coordinates = (case rings g of Some r \<Rightarrow> Some r | None \<Rightarrow> coordinates g)\<rparr>,
          properties = Some (a(''id'' \<mapsto>
            (if truthy (get_prop a ''GEOID'') then get_prop a ''GEOID''
             else JStr ((case get_prop a ''STATE'' of JStr s \<Rightarrow> s | _ \<Rightarrow> [])
                      @ (case get_prop a ''COUNTY'' of JStr s \<Rightarrow> s | _ \<Rightarrow> [])
                      @ (case get_prop a ''TRACT'' of JStr s \<Rightarrow> s | _ \<Rightarrow> []))))),
          attributes = None\<rparr>"
  using assms by (simp add: esriToGeoJSON_feature_def js_or_text) (simp add: js_or_def)

text \<open>
  C10.  An input without a features array is rejected with the error of
  \<^verbatim>\<open>esriToGeoJSON\<close>.  For an input whose features all carry a geometry and an attribute
  bag, the result is a feature collection with one feature for each input feature, in
  the same order; the geometry type of each is \<^verbatim>\<open>Polygon\<close>, whatever the input's was,
  and its properties are the input's attributes with \<^verbatim>\<open>id\<close> set to the attribute
  \<^verbatim>\<open>GEOID\<close> when that is a non-empty string, else to the texts of \<^verbatim>\<open>STATE\<close>, \<^verbatim>\<open>COUNTY\<close>
  and \<^verbatim>\<open>TRACT\<close> one after the other, each empty when missing.
\<close>

theorem esriToGeoJSON_polygon_features:
  "((esriData = None \<or> (\<exists>d. esriData = Some d \<and> features d = None)) \<longrightarrow>
      esriToGeoJSON esriData = Inl (Text ''Invalid ESRI JSON data''))
   \<and> (\<forall>d fs. esriData = Some d \<and> features d = Some fs
          \<and> (\<forall>f \<in> set fs. geometry f \<noteq> None \<and> attributes f \<noteq> None) \<longrightarrow>
        (\<exists>out. esriToGeoJSON esriData
                 = Inr \<lparr>dtype = JStr ''FeatureCollection'', features = Some out\<rparr>
           \<and> length out = length fs
           \<and> (\<forall>i < length fs.
                 (\<exists>g. geometry (out ! i) = Some g \<and> gtype g = JStr ''Polygon'')
               \<and> (\<exists>a. attributes (fs ! i) = Some a
                     \<and> properties (out ! i) = Some (a(''id'' \<mapsto>
                         (if truthy (get_prop a ''GEOID'') then get_prop a ''GEOID''
                          else JStr ((case get_prop a ''STATE'' of JStr s \<Rightarrow> s | _ \<Rightarrow> [])
                                   @ (case get_prop a ''COUNTY'' of JStr s \<Rightarrow> s | _ \<Rightarrow> [])
                                   @ (case get_prop a ''TRACT'' of JStr s \<Rightarrow> s | _ \<Rightarrow> [])))))))))"
proof (intro conjI impI allI)
  assume "esriData = None \<or> (\<exists>d. esriData = Some d \<and> features d = None)"
  then show "esriToGeoJSON esriData = Inl (Text ''Invalid ESRI JSON data'')"
    by (auto simp: esriToGeoJSON_def)
next
  fix d fs
  assume a: "esriData = Some d \<and> features d = Some fs
          \<and> (\<forall>f \<in> set fs. geometry f \<noteq> None \<and> attributes f \<noteq> None)"
  define conv where "conv f =
     \<lparr>ftype = JStr ''Feature'',
      geometry = Some \<lparr>gtype = JStr ''Polygon'', rings = None,
        coordinates = (case rings (the (geometry f)) of Some r \<Rightarrow> Some r
                       | None \<Rightarrow> coordinates (the (geometry f)))\<rparr>,
      properties = Some ((the (attributes f))(''id'' \<mapsto>
        (if truthy (get_prop (the (attributes f)) ''GEOID'') then get_prop (the (attributes f)) ''GEOID''
         else JStr ((case get_prop (the (attributes f)) ''STATE'' of JStr s \<Rightarrow> s | _ \<Rightarrow> [])
                  @ (case get_prop (the (attributes f)) ''COUNTY'' of JStr s \<Rightarrow> s | _ \<Rightarrow> [])
                  @ (case get_prop (the (attributes f)) ''TRACT'' of JStr s \<Rightarrow> s | _ \<Rightarrow> []))))),
      attributes = None\<rparr>" for f :: feature
  have each: "\<forall>f \<in> set fs. esriToGeoJSON_feature f = Inr (conv f)"
  proof
    fix f assume "f \<in> set fs"
    with a obtain g ab where "geometry f = Some g" and "attributes f = Some ab" by auto
    then show "esriToGeoJSON_feature f = Inr (conv f)"
      by (simp add: esriToGeoJSON_feature_ok conv_def split: option.split)
  qed
  have res: "esriToGeoJSON esriData
               = Inr \<lparr>dtype = JStr ''FeatureCollection'', features = Some (map conv fs)\<rparr>"
    using a map_throwing_total [OF each] by (simp add: esriToGeoJSON_def)
  have elems: "\<forall>i < length fs.
                 (\<exists>g. geometry (map conv fs ! i) = Some g \<and> gtype g = JStr ''Polygon'')
               \<and> (\<exists>a. attributes (fs ! i) = Some a
                     \<and> properties (map conv fs ! i) = Some (a(''id'' \<mapsto>
                         (if truthy (get_prop a ''GEOID'') then get_prop a ''GEOID''
                          else JStr ((case get_prop a ''STATE'' of JStr s \<Rightarrow> s | _ \<Rightarrow> [])
                                   @ (case get_prop a ''COUNTY'' of JStr s \<Rightarrow> s | _ \<Rightarrow> [])
                                   @ (case get_prop a ''TRACT'' of JStr s \<Rightarrow> s | _ \<Rightarrow> []))))))"
  proof (intro allI impI)
    fix i assume i: "i < length fs"
    then have "fs ! i \<in> set fs" by simp
    with a obtain ab where ab: "attributes (fs ! i) = Some ab" by auto
    show "(\<exists>g. geometry (map conv fs ! i) = Some g \<and> gtype g = JStr ''Polygon'')
               \<and> (\<exists>a. attributes (fs ! i) = Some a
                     \<and> properties (map conv fs ! i) = Some (a(''id'' \<mapsto>
                         (if truthy (get_prop a ''GEOID'') then get_prop a ''GEOID''
                          else JStr ((case get_prop a ''STATE'' of JStr s \<Rightarrow> s | _ \<Rightarrow> [])
                                   @ (case get_prop a ''COUNTY'' of JStr s \<Rightarrow> s | _ \<Rightarrow> [])
                                   @ (case get_prop a ''TRACT'' of JStr s \<Rightarrow> s | _ \<Rightarrow> []))))))"
      using i ab by (simp add: conv_def)
  qed
  from res elems show "\<exists>out. esriToGeoJSON esriData
                 = Inr \<lparr>dtype = JStr ''FeatureCollection'', features = Some out\<rparr>
           \<and> length out = length fs
           \<and> (\<forall>i < length fs.
                 (\<exists>g. geometry (out ! i) = Some g \<and> gtype g = JStr ''Polygon'')
               \<and> (\<exists>a. attributes (fs ! i) = Some a
                     \<and> properties (out ! i) = Some (a(''id'' \<mapsto>
                         (if truthy (get_prop a ''GEOID'') then get_prop a ''GEOID''
                          else JStr ((case get_prop a ''STATE'' of JStr s \<Rightarrow> s | _ \<Rightarrow> [])
                                   @ (case get_prop a ''COUNTY'' of JStr s \<Rightarrow> s | _ \<Rightarrow> [])
                                   @ (case get_prop a ''TRACT'' of JStr s \<Rightarrow> s | _ \<Rightarrow> [])))))))"
    by (intro exI [of _ "map conv fs"]) simp
qed

theorem esriToGeoJSON_witness:
  "esriToGeoJSON None = Inl (Text ''Invalid ESRI JSON data'')
   \<and> esriToGeoJSON (Some county_doc)
     = Inr \<lparr>dtype = JStr ''FeatureCollection'',
            features = Some [\<lparr>ftype = JStr ''Feature'',
              geometry = Some \<lparr>gtype = JStr ''Polygon'', rings = None,
                coordinates = Some [[(- 118, 34), (- 117, 34), (- 118, 33), (- 118, 34)]]\<rparr>,
              properties = Some [''STATE'' \<mapsto> JStr ''06'', ''COUNTY'' \<mapsto> JStr ''037'',
                                 ''id'' \<mapsto> JStr ''06037''],
              attributes = None\<rparr>]\<rparr>"
proof -
  have 1: "esriToGeoJSON None = Inl (Text ''Invalid ESRI JSON data'')"
    using esriToGeoJSON_polygon_features [of None] by simp
  have h: "Some county_doc = Some county_doc
           \<and> features county_doc = Some (the (features county_doc))
           \<and> (\<forall>f \<in> set (the (features county_doc)). geometry f \<noteq> None \<and> attributes f \<noteq> None)"
    by (simp add: county_doc_def)
  from esriToGeoJSON_polygon_features [of "Some county_doc"] h
  obtain out where o: "esriToGeoJSON (Some county_doc)
                 = Inr \<lparr>dtype = JStr ''FeatureCollection'', features = Some out\<rparr>"
    by blast
  have "esriToGeoJSON (Some county_doc)
     = Inr \<lparr>dtype = JStr ''FeatureCollection'',
            features = Some [\<lparr>ftype = JStr ''Feature'',
              geometry = Some \<lparr>gtype = JStr ''Polygon'', rings = None,
                coordinates = Some [[(- 118, 34), (- 117, 34), (- 118, 33), (- 118, 34)]]\<rparr>,
              properties = Some [''STATE'' \<mapsto> JStr ''06'', ''COUNTY'' \<mapsto> JStr ''037'',
                                 ''id'' \<mapsto> JStr ''06037''],
              attributes = None\<rparr>]\<rparr>"
    using o
    by (simp add: esriToGeoJSON_def esriToGeoJSON_feature_def county_doc_def get_prop_def js_or_def)
  with 1 show ?thesis by simp
qed

end
